theory Spec2Isabelle
  imports Complex_Main "HOL-Library.Word"
begin

text \<open>
  A model of the CV mailer: the message builder and the greeting of \<open>code_sender.py\<close>
  and the three sending views of \<open>app.py\<close> (batch, single and test send), followed by
  the properties of the batch loop, of the message and of the validation that the
  specification states.  Pure functions are modelled as functions; a function that
  raises returns a sum with the exception on the left; a function that reaches the
  file system, the relay or the clock takes the transcript of the calls made so far
  and returns it extended.
\<close>

section \<open>Python values used by the mailer\<close>

text \<open>
  A Python \<open>str\<close> is a sequence of Unicode code points, so it is modelled as a list of
  natural numbers (the code points), not as a list of 8-bit characters: \<open>str.strip\<close>
  removes code points such as U+00A0 and U+3000 that are no single byte of any encoding.
  \<open>ascii\<close> reads an ASCII literal of the source as such a string.  A \<open>bytes\<close> object is a
  list of 8-bit words.
\<close>

type_synonym pystr = "nat list"

type_synonym pybytes = "8 word list"

definition ascii :: "string \<Rightarrow> pystr" where
  "ascii s = map of_char s"

text \<open>A string between two double quotes (code point 34).\<close>

definition quoted :: "pystr \<Rightarrow> pystr" where
  "quoted s = [34] @ s @ [34]"

text \<open>
  \<open>str.isspace\<close> for one code point: the code points CPython classifies as whitespace
  (bidirectional type WS, B or S, or category Zs).
\<close>

definition isspace :: "nat \<Rightarrow> bool" where
  "isspace c \<longleftrightarrow>
     (9 \<le> c \<and> c \<le> 13) \<or> (28 \<le> c \<and> c \<le> 32) \<or> c = 133 \<or> c = 160 \<or> c = 5760 \<or>
     (8192 \<le> c \<and> c \<le> 8202) \<or> c = 8232 \<or> c = 8233 \<or> c = 8239 \<or> c = 8287 \<or> c = 12288"

text \<open>\<open>s.strip()\<close>: leading and trailing whitespace removed.\<close>

definition strip :: "pystr \<Rightarrow> pystr" where
  "strip s = rev (dropWhile isspace (rev (dropWhile isspace s)))"

text \<open>
  \<open>d.get(key, "")\<close> on a dictionary with string values (\<open>Dict[str, str]\<close>), the dictionary
  being a partial map.
\<close>

definition get_str :: "(pystr \<rightharpoonup> pystr) \<Rightarrow> pystr \<Rightarrow> pystr" where
  "get_str d k = (case d k of None \<Rightarrow> [] | Some v \<Rightarrow> v)"

section \<open>Greeting (code\_sender.py, create\_greeting)\<close>

type_synonym recipient = "pystr \<rightharpoonup> pystr"

definition create_greeting :: "recipient \<Rightarrow> pystr" where
  "create_greeting recipient =
     (let company = strip (get_str recipient (ascii ''company''))
      in if company \<noteq> [] then company @ ascii '' Hiring Team''
         else ascii ''Hiring Team'')"

section \<open>Exceptions and number formatting\<close>

text \<open>
  An exception is a value: its class, as far as the handlers tell classes apart
  (\<open>except smtplib.SMTPException\<close> against \<open>except Exception\<close>), and the text that
  \<open>str(e)\<close> gives.  \<open>OtherError\<close> stands for every other subclass of \<open>Exception\<close>
  (\<open>OSError\<close> from a socket, \<open>KeyError\<close> from \<open>str.format\<close>, ...).
\<close>

datatype exn =
    SMTPException pystr
  | FileNotFoundError pystr
  | RuntimeError pystr
  | ValueError pystr
  | BinasciiError pystr
  | OtherError pystr

fun str_exn :: "exn \<Rightarrow> pystr" where
  "str_exn (SMTPException m) = m"
| "str_exn (FileNotFoundError m) = m"
| "str_exn (RuntimeError m) = m"
| "str_exn (ValueError m) = m"
| "str_exn (BinasciiError m) = m"
| "str_exn (OtherError m) = m"

fun is_SMTPException :: "exn \<Rightarrow> bool" where
  "is_SMTPException (SMTPException m) = True"
| "is_SMTPException e = False"

text \<open>\<open>str(n)\<close> for a Python integer: decimal digits, with a sign when negative.\<close>

fun str_nat :: "nat \<Rightarrow> pystr" where
  "str_nat n = (if n < 10 then [48 + n] else str_nat (n div 10) @ [48 + n mod 10])"

declare str_nat.simps [simp del]

definition str_int :: "int \<Rightarrow> pystr" where
  "str_int i = (if i < 0 then 45 # str_nat (nat (- i)) else str_nat (nat i))"

section \<open>Base64 (Python's base64 and binascii modules)\<close>

text \<open>
  The handlers decode the attachment with \<open>base64.b64decode\<close> and the message builder
  encodes it with \<open>email.encoders.encode_base64\<close>, which calls \<open>base64.encodebytes\<close>.
  These are library functions; they are modelled here as CPython 3.11 computes them.
  Bit operations on the 6-bit and 8-bit quantities are written as arithmetic:
  \<open>x >> k\<close> is \<open>x div 2^k\<close>, \<open>x & (2^k - 1)\<close> is \<open>x mod 2^k\<close>, and \<open>(x << k) | y\<close> with
  \<open>y < 2^k\<close> is \<open>x * 2^k + y\<close>.
\<close>

definition table_b2a_base64 :: "nat \<Rightarrow> nat" where
  "table_b2a_base64 i =
     (if i < 26 then 65 + i
      else if i < 52 then 71 + i
      else if i < 62 then i - 4
      else if i = 62 then 43
      else 47)"

definition table_a2b_base64 :: "nat \<Rightarrow> nat option" where
  "table_a2b_base64 c =
     (if 65 \<le> c \<and> c \<le> 90 then Some (c - 65)
      else if 97 \<le> c \<and> c \<le> 122 then Some (c - 71)
      else if 48 \<le> c \<and> c \<le> 57 then Some (c + 4)
      else if c = 43 then Some 62
      else if c = 47 then Some 63
      else None)"

text \<open>
  \<open>binascii.b2a_base64(data, newline=False)\<close>: three bytes give four characters, and a
  last group of one or two bytes is padded with \<open>=\<close> (code point 61).
\<close>

fun b2a_groups :: "pybytes \<Rightarrow> pystr" where
  "b2a_groups (a # b # c # r) =
     [table_b2a_base64 (unat a div 4),
      table_b2a_base64 ((unat a mod 4) * 16 + unat b div 16),
      table_b2a_base64 ((unat b mod 16) * 4 + unat c div 64),
      table_b2a_base64 (unat c mod 64)] @ b2a_groups r"
| "b2a_groups [a, b] =
     [table_b2a_base64 (unat a div 4),
      table_b2a_base64 ((unat a mod 4) * 16 + unat b div 16),
      table_b2a_base64 ((unat b mod 16) * 4),
      61]"
| "b2a_groups [a] =
     [table_b2a_base64 (unat a div 4),
      table_b2a_base64 ((unat a mod 4) * 16),
      61, 61]"
| "b2a_groups [] = []"

text \<open>\<open>base64.b64encode(s)\<close>, the standard encoding a client sends.\<close>

definition b64encode :: "pybytes \<Rightarrow> pystr" where
  "b64encode s = b2a_groups s"

text \<open>\<open>binascii.b2a_base64(data)\<close>: the encoding followed by a newline.\<close>

definition b2a_base64 :: "pybytes \<Rightarrow> pystr" where
  "b2a_base64 s = b2a_groups s @ [10]"

text \<open>
  \<open>base64.encodebytes(s)\<close>: the input is cut into chunks of \<open>MAXBINSIZE = 57\<close> bytes and
  each chunk is encoded as one line of at most 76 characters.
\<close>

definition MAXBINSIZE :: nat where
  "MAXBINSIZE = 57"

function encodebytes :: "pybytes \<Rightarrow> pystr" where
  "encodebytes s =
     (if s = [] then []
      else b2a_base64 (take MAXBINSIZE s) @ encodebytes (drop MAXBINSIZE s))"
  by pat_completeness auto
termination
  by (relation "measure length") (auto simp: MAXBINSIZE_def)

declare encodebytes.simps [simp del]

text \<open>
  \<open>binascii.a2b_base64(data)\<close> in its default, non-strict mode.  The loop keeps the
  position in the current group of four (\<open>quad_pos\<close>), the bits left over from the
  previous character (\<open>leftchar\<close>) and the number of padding characters seen since the
  last data character (\<open>pads\<close>, counted only when \<open>quad_pos \<ge> 2\<close>).  A character outside
  the alphabet is skipped; a padding character that completes a group ends the
  decoding, whatever follows.
\<close>

fun a2b_base64_loop :: "nat list \<Rightarrow> nat \<Rightarrow> nat \<Rightarrow> nat \<Rightarrow> pybytes \<Rightarrow> exn + pybytes" where
  "a2b_base64_loop [] quad_pos leftchar pads out =
     (if quad_pos = 0 then Inr out
      else if quad_pos = 1 then
        Inl (BinasciiError
              (ascii ''Invalid base64-encoded string: number of data characters (''
               @ str_nat (length out div 3 * 4 + 1)
               @ ascii '') cannot be 1 more than a multiple of 4''))
      else Inl (BinasciiError (ascii ''Incorrect padding'')))"
| "a2b_base64_loop (c # cs) quad_pos leftchar pads out =
     (if c = 61 then
        (if 2 \<le> quad_pos \<and> 4 \<le> quad_pos + (pads + 1) then Inr out
         else a2b_base64_loop cs quad_pos leftchar
                (if 2 \<le> quad_pos then pads + 1 else pads) out)
      else
        (case table_a2b_base64 c of
           None \<Rightarrow> a2b_base64_loop cs quad_pos leftchar pads out
         | Some v \<Rightarrow>
             (if quad_pos = 0 then a2b_base64_loop cs 1 v 0 out
              else if quad_pos = 1 then
                a2b_base64_loop cs 2 (v mod 16) 0 (out @ [of_nat (leftchar * 4 + v div 16)])
              else if quad_pos = 2 then
                a2b_base64_loop cs 3 (v mod 4) 0 (out @ [of_nat (leftchar * 16 + v div 4)])
              else
                a2b_base64_loop cs 0 0 0 (out @ [of_nat (leftchar * 64 + v)]))))"

definition a2b_base64 :: "nat list \<Rightarrow> exn + pybytes" where
  "a2b_base64 s = a2b_base64_loop s 0 0 0 []"

text \<open>
  \<open>base64.b64decode(s)\<close> on a \<open>str\<close>: the string must be ASCII (\<open>ValueError\<close> otherwise)
  and is then decoded by \<open>a2b_base64\<close>.
\<close>

definition b64decode :: "pystr \<Rightarrow> exn + pybytes" where
  "b64decode s =
     (if list_ex (\<lambda>c. 128 \<le> c) s
      then Inl (ValueError (ascii ''string argument should contain only ASCII characters''))
      else a2b_base64 s)"

section \<open>MIME messages (Python's email package)\<close>

text \<open>
  The message that \<open>build_message\<close> makes is a \<open>MIMEMultipart\<close> whose payload is a list of
  leaf parts (a \<open>MIMEText\<close> and at most one \<open>MIMEBase\<close>).  Both carry an ordered list of
  headers: a header may be repeated and \<open>msg[name] = value\<close> appends.  A leaf's payload
  is a \<open>str\<close>.
\<close>

record mime_part =
  part_headers :: "(pystr \<times> pystr) list"
  part_payload :: pystr

record message =
  msg_headers :: "(pystr \<times> pystr) list"
  msg_parts :: "mime_part list"

text \<open>\<open>MIMEMultipart()\<close>: subtype \<open>mixed\<close>, no parts yet.\<close>

definition MIMEMultipart :: message where
  "MIMEMultipart =
     \<lparr>msg_headers = [(ascii ''Content-Type'', ascii ''multipart/mixed''),
                     (ascii ''MIME-Version'', ascii ''1.0'')],
      msg_parts = []\<rparr>"

text \<open>\<open>msg[name] = val\<close> and \<open>msg.attach(part)\<close>.\<close>

definition set_item :: "message \<Rightarrow> pystr \<Rightarrow> pystr \<Rightarrow> message" where
  "set_item msg nm val = msg\<lparr>msg_headers := msg_headers msg @ [(nm, val)]\<rparr>"

definition attach :: "message \<Rightarrow> mime_part \<Rightarrow> message" where
  "attach msg part = msg\<lparr>msg_parts := msg_parts msg @ [part]\<rparr>"

text \<open>
  \<open>MIMEText(text, subtype, "utf-8")\<close>.  The text is encoded in the character set (the
  encoder is a parameter: Python's \<open>str.encode("utf-8", "surrogateescape")\<close>, which
  raises \<open>UnicodeEncodeError\<close> on an unpaired surrogate) and the bytes are stored
  base64-encoded, which is the body encoding of the \<open>utf-8\<close> character set.
\<close>

definition MIMEText_utf8 :: "(pystr \<Rightarrow> exn + pybytes) \<Rightarrow> pystr \<Rightarrow> pystr \<Rightarrow> exn + mime_part" where
  "MIMEText_utf8 encode text subtype =
     (case encode text of
        Inl e \<Rightarrow> Inl e
      | Inr encoded \<Rightarrow>
          Inr \<lparr>part_headers =
                 [(ascii ''Content-Type'',
                   ascii ''text/'' @ subtype @ ascii ''; charset='' @ quoted (ascii ''utf-8'')),
                  (ascii ''MIME-Version'', ascii ''1.0''),
                  (ascii ''Content-Transfer-Encoding'', ascii ''base64'')],
               part_payload = encodebytes encoded\<rparr>)"

text \<open>\<open>MIMEBase(maintype, subtype)\<close>: a part with no payload yet.\<close>

definition MIMEBase :: "pystr \<Rightarrow> pystr \<Rightarrow> mime_part" where
  "MIMEBase maintype subtype =
     \<lparr>part_headers = [(ascii ''Content-Type'', maintype @ ascii ''/'' @ subtype),
                      (ascii ''MIME-Version'', ascii ''1.0'')],
      part_payload = []\<rparr>"

text \<open>
  \<open>part.set_payload(data)\<close> with \<open>bytes\<close>: the payload is kept as
  \<open>data.decode("ascii", "surrogateescape")\<close>, where a byte \<open>b \<ge> 128\<close> becomes the code
  point \<open>U+DC00 + b\<close>.  \<open>get_payload(decode=True)\<close> on a part without a transfer encoding
  reads the bytes back with \<open>encode("ascii", "surrogateescape")\<close>; the model covers the
  strings that \<open>set_payload\<close> makes from bytes, the only ones it is applied to here.
\<close>

definition surrogateescape_decode :: "pybytes \<Rightarrow> pystr" where
  "surrogateescape_decode data = map (\<lambda>b. if unat b < 128 then unat b else 56320 + unat b) data"

definition surrogateescape_encode :: "pystr \<Rightarrow> pybytes" where
  "surrogateescape_encode s = map (\<lambda>c. if c < 128 then of_nat c else of_nat (c - 56320)) s"

definition set_payload :: "mime_part \<Rightarrow> pybytes \<Rightarrow> mime_part" where
  "set_payload part data = part\<lparr>part_payload := surrogateescape_decode data\<rparr>"

definition add_header :: "mime_part \<Rightarrow> pystr \<Rightarrow> pystr \<Rightarrow> mime_part" where
  "add_header part nm val = part\<lparr>part_headers := part_headers part @ [(nm, val)]\<rparr>"

text \<open>
  \<open>encoders.encode_base64(part)\<close>: the payload bytes are replaced by their
  \<open>encodebytes\<close> text and a \<open>Content-Transfer-Encoding: base64\<close> header is added.
\<close>

definition encode_base64 :: "mime_part \<Rightarrow> mime_part" where
  "encode_base64 part =
     (let orig = surrogateescape_encode (part_payload part);
          encdata = encodebytes orig
      in add_header (part\<lparr>part_payload := encdata\<rparr>)
           (ascii ''Content-Transfer-Encoding'') (ascii ''base64''))"

section \<open>The world outside the program\<close>

text \<open>
  The file system, the mail relay and the clock are outside the program.  Every call
  that reaches them is recorded as an event together with what it returned, and what a
  call returns is given by an oracle that sees the events so far, so that the same call
  may succeed once and fail later.  An SMTP call returns \<open>None\<close> when it succeeds and
  \<open>Some e\<close> when it raises \<open>e\<close>.
  \<open>smtp_sendmail\<close> stands for \<open>smtp.sendmail(sender, [recipient], msg.as_string())\<close>,
  serialisation included, and \<open>smtp_exit\<close> for the \<open>__exit__\<close> of the \<open>with\<close> block (the
  \<open>QUIT\<close> command, which raises when the relay does not answer 221, and the close).
  \<open>str_format\<close> is \<open>str.format\<close> with keyword arguments, \<open>utf8_encode\<close> is
  \<open>str.encode("utf-8", "surrogateescape")\<close> and \<open>path_name\<close> is \<open>Path(p).name\<close>; they are
  pure library functions and are left uninterpreted.  Logging is not modelled.
\<close>

datatype event =
    PathExists pystr bool
  | ReadText pystr "exn + pystr"
  | ReadBytes pystr "exn + pybytes"
  | SmtpConnect pystr nat "exn option"
  | SmtpEhlo "exn option"
  | SmtpStarttls "exn option"
  | SmtpLogin pystr pystr "exn option"
  | SmtpSendmail pystr "pystr list" message "exn option"
  | SmtpExit "exn option"
  | Sleep real

record env =
  path_exists :: "event list \<Rightarrow> pystr \<Rightarrow> bool"
  read_text :: "event list \<Rightarrow> pystr \<Rightarrow> exn + pystr"
  read_bytes :: "event list \<Rightarrow> pystr \<Rightarrow> exn + pybytes"
  path_name :: "pystr \<Rightarrow> pystr"
  utf8_encode :: "pystr \<Rightarrow> exn + pybytes"
  str_format :: "pystr \<Rightarrow> (pystr \<times> pystr) list \<Rightarrow> exn + pystr"
  smtp_connect :: "event list \<Rightarrow> pystr \<Rightarrow> nat \<Rightarrow> exn option"
  smtp_ehlo :: "event list \<Rightarrow> exn option"
  smtp_starttls :: "event list \<Rightarrow> exn option"
  smtp_login :: "event list \<Rightarrow> pystr \<Rightarrow> pystr \<Rightarrow> exn option"
  smtp_sendmail :: "event list \<Rightarrow> pystr \<Rightarrow> pystr list \<Rightarrow> message \<Rightarrow> exn option"
  smtp_exit :: "event list \<Rightarrow> exn option"

section \<open>Configuration constants (code\_sender.py)\<close>

definition SMTP_SERVER :: pystr where
  "SMTP_SERVER = ascii ''smtp.gmail.com''"

definition SMTP_PORT :: nat where
  "SMTP_PORT = 587"

definition SEND_DELAY :: real where
  "SEND_DELAY = 1"

definition TEMPLATE_PATH :: pystr where
  "TEMPLATE_PATH = ascii ''email_template.html''"

definition RECIPIENTS :: "recipient list" where
  "RECIPIENTS = []"

section \<open>Template loading and configuration check (code\_sender.py)\<close>

definition load_email_template ::
  "env \<Rightarrow> pystr \<Rightarrow> event list \<Rightarrow> (exn + pystr) \<times> event list" where
  "load_email_template env template_path tr =
     (if \<not> path_exists env tr template_path
      then (Inl (FileNotFoundError (ascii ''Email template not found: '' @ template_path)),
            tr @ [PathExists template_path False])
      else
        (let tr1 = tr @ [PathExists template_path True];
             template_content = read_text env tr1 template_path
         in (template_content, tr1 @ [ReadText template_path template_content])))"

definition validate_configuration ::
  "env \<Rightarrow> bool \<Rightarrow> event list \<Rightarrow> exn option \<times> event list" where
  "validate_configuration env check_recipients tr =
     (if check_recipients \<and> RECIPIENTS = []
      then (Some (RuntimeError
                   (ascii ''No recipients configured. Please add at least one recipient.'')), tr)
      else if \<not> path_exists env tr TEMPLATE_PATH
      then (Some (FileNotFoundError (ascii ''Email template not found: '' @ TEMPLATE_PATH)),
            tr @ [PathExists TEMPLATE_PATH False])
      else (None, tr @ [PathExists TEMPLATE_PATH True]))"

section \<open>Message builder and single send (code\_sender.py)\<close>

text \<open>
  Python's truth test on an optional \<open>str\<close> or \<open>bytes\<close>: \<open>None\<close> and the empty sequence
  are false.  An f-string renders \<open>None\<close> as the text \<open>None\<close>.
\<close>

fun truthy :: "'a list option \<Rightarrow> bool" where
  "truthy None = False"
| "truthy (Some xs) = (xs \<noteq> [])"

fun or_empty :: "'a list option \<Rightarrow> 'a list" where
  "or_empty None = []"
| "or_empty (Some xs) = xs"

fun format_optional :: "pystr option \<Rightarrow> pystr" where
  "format_optional None = ascii ''None''"
| "format_optional (Some s) = s"

definition build_message ::
  "env \<Rightarrow> pystr \<Rightarrow> pystr \<Rightarrow> pystr \<Rightarrow> pystr \<Rightarrow> pystr option \<Rightarrow> pybytes option \<Rightarrow> pystr option
     \<Rightarrow> event list \<Rightarrow> (exn + message) \<times> event list" where
  "build_message env sender to_email subject body_text attachment_path attachment_data
       attachment_filename tr =
     (let msg = MIMEMultipart;
          msg = set_item msg (ascii ''From'') sender;
          msg = set_item msg (ascii ''To'') to_email;
          msg = set_item msg (ascii ''Subject'') subject
      in case MIMEText_utf8 (utf8_encode env) body_text (ascii ''html'') of
           Inl e \<Rightarrow> (Inl e, tr)
         | Inr html \<Rightarrow>
             (let msg = attach msg html
              in if truthy attachment_data then
                   (let part = MIMEBase (ascii ''application'') (ascii ''octet-stream'');
                        part = set_payload part (or_empty attachment_data);
                        part = encode_base64 part;
                        part = add_header part (ascii ''Content-Disposition'')
                                 (ascii ''attachment; filename=''
                                  @ quoted (format_optional attachment_filename))
                    in (Inr (attach msg part), tr))
                 else if truthy attachment_path then
                   (let attachment_file = or_empty attachment_path
                    in if \<not> path_exists env tr attachment_file
                       then (Inl (FileNotFoundError
                                   (ascii ''Attachment not found: '' @ attachment_file)),
                             tr @ [PathExists attachment_file False])
                       else
                         (let tr1 = tr @ [PathExists attachment_file True];
                              content = read_bytes env tr1 attachment_file;
                              tr2 = tr1 @ [ReadBytes attachment_file content]
                          in case content of
                               Inl e \<Rightarrow> (Inl e, tr2)
                             | Inr data \<Rightarrow>
                                 (let part = MIMEBase (ascii ''application'')
                                               (ascii ''octet-stream'');
                                      part = set_payload part data;
                                      part = encode_base64 part;
                                      part = add_header part (ascii ''Content-Disposition'')
                                               (ascii ''attachment; filename=''
                                                @ quoted (path_name env attachment_file))
                                  in (Inr (attach msg part), tr2))))
                 else (Inr msg, tr)))"

definition send_one ::
  "env \<Rightarrow> pystr \<Rightarrow> pystr \<Rightarrow> pystr \<Rightarrow> pystr \<Rightarrow> pystr option \<Rightarrow> pybytes option \<Rightarrow> pystr option
     \<Rightarrow> event list \<Rightarrow> exn option \<times> event list" where
  "send_one env sender recipient subject body attachment attachment_data attachment_filename tr =
     (case build_message env sender recipient subject body attachment attachment_data
             attachment_filename tr of
        (Inl e, tr1) \<Rightarrow> (Some e, tr1)
      | (Inr msg, tr1) \<Rightarrow>
          (let outcome = smtp_sendmail env tr1 sender [recipient] msg
           in (outcome, tr1 @ [SmtpSendmail sender [recipient] msg outcome])))"

section \<open>Requests and responses (app.py)\<close>

text \<open>
  A response is the JSON value given to \<open>jsonify\<close> and the HTTP status (200 when the
  view returns the body alone).  A dictionary literal is an ordered list of items.
\<close>

datatype json =
    JNull
  | JBool bool
  | JInt int
  | JStr pystr
  | JList "json list"
  | JDict "(pystr \<times> json) list"

type_synonym response = "json \<times> nat"

text \<open>
  The request body \<open>data\<close> is a JSON object.  It is modelled with the types of the
  interface: each key that a view reads is either absent (\<open>None\<close>) or holds a string, a
  recipient object with string values, or a list of such objects.
\<close>

record request =
  req_recipients :: "recipient list option"
  req_recipient :: "recipient option"
  req_email :: "pystr option"
  req_company :: "pystr option"
  req_sender_email :: "pystr option"
  req_app_password :: "pystr option"
  req_job_title :: "pystr option"
  req_subject :: "pystr option"
  req_pdf_file :: "pystr option"
  req_pdf_filename :: "pystr option"
  req_name :: "pystr option"
  req_phone_number :: "pystr option"

text \<open>\<open>data.get(key, default)\<close>.\<close>

fun get_default :: "'a option \<Rightarrow> 'a \<Rightarrow> 'a" where
  "get_default None d = d"
| "get_default (Some v) d = v"

text \<open>The two shapes of error body: \<open>{"error": m}\<close> and \<open>{"success": False, "error": m}\<close>.\<close>

definition error_body :: "pystr \<Rightarrow> json" where
  "error_body m = JDict [(ascii ''error'', JStr m)]"

definition failure_body :: "pystr \<Rightarrow> json" where
  "failure_body m = JDict [(ascii ''success'', JBool False), (ascii ''error'', JStr m)]"

text \<open>
  \<open>smtp.ehlo(); smtp.starttls(); smtp.login(sender_email, app_password)\<close>, the first
  three statements in the \<open>with\<close> block of each view: the first call that raises ends
  the sequence.
\<close>

definition smtp_handshake ::
  "env \<Rightarrow> pystr \<Rightarrow> pystr \<Rightarrow> event list \<Rightarrow> exn option \<times> event list" where
  "smtp_handshake env sender_email app_password tr =
     (let tr1 = tr @ [SmtpEhlo (smtp_ehlo env tr)]
      in case smtp_ehlo env tr of
           Some e \<Rightarrow> (Some e, tr1)
         | None \<Rightarrow>
             (let tr2 = tr1 @ [SmtpStarttls (smtp_starttls env tr1)]
              in case smtp_starttls env tr1 of
                   Some e \<Rightarrow> (Some e, tr2)
                 | None \<Rightarrow>
                     (let outcome = smtp_login env tr2 sender_email app_password
                      in (outcome, tr2 @ [SmtpLogin sender_email app_password outcome]))))"

text \<open>
  \<open>with smtplib.SMTP(SMTP_SERVER, SMTP_PORT) as smtp: body\<close>.  When the constructor
  raises, the block is not entered.  Otherwise \<open>__exit__\<close> runs when the block is left,
  by \<open>return\<close> or by an exception, and an exception raised by \<open>__exit__\<close> replaces the
  outcome of the block.
\<close>

definition with_SMTP ::
  "env \<Rightarrow> (event list \<Rightarrow> (exn + 'a) \<times> event list) \<Rightarrow> event list \<Rightarrow> (exn + 'a) \<times> event list" where
  "with_SMTP env body tr =
     (case smtp_connect env tr SMTP_SERVER SMTP_PORT of
        Some e \<Rightarrow> (Inl e, tr @ [SmtpConnect SMTP_SERVER SMTP_PORT (Some e)])
      | None \<Rightarrow>
          (case body (tr @ [SmtpConnect SMTP_SERVER SMTP_PORT None]) of
             (outcome, tr1) \<Rightarrow>
               (case smtp_exit env tr1 of
                  Some e \<Rightarrow> (Inl e, tr1 @ [SmtpExit (Some e)])
                | None \<Rightarrow> (outcome, tr1 @ [SmtpExit None]))))"

section \<open>Batch send (app.py, send\_emails)\<close>

text \<open>The local variables of \<open>send_emails\<close> that the loop over the recipients reads.\<close>

record batch =
  b_email_template :: pystr
  b_sender_email :: pystr
  b_job_title :: pystr
  b_subject :: pystr
  b_name :: pystr
  b_phone_number :: pystr
  b_pdf_data :: pybytes
  b_pdf_filename :: pystr
  b_len_recipients :: nat

definition success_result :: "pystr \<Rightarrow> json" where
  "success_result to_email =
     JDict [(ascii ''email'', JStr to_email),
            (ascii ''status'', JStr (ascii ''success'')),
            (ascii ''message'', JStr (ascii ''Email sent successfully''))]"

definition error_result :: "pystr \<Rightarrow> pystr \<Rightarrow> json" where
  "error_result to_email m =
     JDict [(ascii ''email'', JStr to_email),
            (ascii ''status'', JStr (ascii ''error'')),
            (ascii ''message'', JStr m)]"

text \<open>\<open>if len(recipients) > 1: time.sleep(SEND_DELAY)\<close>.\<close>

definition delay_between :: "batch \<Rightarrow> event list \<Rightarrow> event list" where
  "delay_between b tr = (if 1 < b_len_recipients b then tr @ [Sleep SEND_DELAY] else tr)"

text \<open>
  The \<open>for\<close> loop (lines 128 to 171).  The state is the list \<open>results\<close> and the counters
  \<open>successful_sends\<close> and \<open>failed_sends\<close>.  An exception of \<open>email_template.format\<close> is
  outside the inner \<open>try\<close> and leaves the loop.
\<close>

fun send_loop ::
  "env \<Rightarrow> batch \<Rightarrow> recipient list \<Rightarrow> json list \<times> int \<times> int \<Rightarrow> event list
     \<Rightarrow> (exn + json list \<times> int \<times> int) \<times> event list" where
  "send_loop env b [] acc tr = (Inr acc, tr)"
| "send_loop env b (recipient # rest) (results, successful_sends, failed_sends) tr =
     (let to_email = strip (get_str recipient (ascii ''email''))
      in if to_email = [] then
           send_loop env b rest (results, successful_sends, failed_sends) tr
         else
           (let greeting = create_greeting recipient
            in case str_format env (b_email_template b)
                      [(ascii ''greeting'', greeting),
                       (ascii ''job_title'', b_job_title b),
                       (ascii ''name'', b_name b),
                       (ascii ''phone_number'', b_phone_number b),
                       (ascii ''email'', b_sender_email b)] of
                 Inl e \<Rightarrow> (Inl e, tr)
               | Inr body \<Rightarrow>
                   (case send_one env (b_sender_email b) to_email (b_subject b) body None
                           (Some (b_pdf_data b)) (Some (b_pdf_filename b)) tr of
                      (None, tr1) \<Rightarrow>
                        send_loop env b rest
                          (results @ [success_result to_email],
                           successful_sends + 1, failed_sends)
                          (delay_between b tr1)
                    | (Some e, tr1) \<Rightarrow>
                        send_loop env b rest
                          (results @ [error_result to_email (str_exn e)],
                           successful_sends, failed_sends + 1)
                          (delay_between b tr1))))"

text \<open>The body returned at the end of the \<open>with\<close> block (lines 173 to 184).\<close>

definition batch_body :: "json list \<Rightarrow> int \<Rightarrow> int \<Rightarrow> nat \<Rightarrow> json" where
  "batch_body results successful_sends failed_sends len_recipients =
     JDict [(ascii ''success'', JBool True),
            (ascii ''message'',
             JStr (ascii ''Email sending completed. Success: '' @ str_int successful_sends
                   @ ascii '', Failed: '' @ str_int failed_sends)),
            (ascii ''results'', JList results),
            (ascii ''summary'',
             JDict [(ascii ''successful'', JInt successful_sends),
                    (ascii ''failed'', JInt failed_sends),
                    (ascii ''total'', JInt (int len_recipients))])]"

text \<open>The block under \<open>with smtplib.SMTP(...)\<close> (lines 122 to 184).\<close>

definition batch_session :: "env \<Rightarrow> pystr \<Rightarrow> batch \<Rightarrow> recipient list \<Rightarrow> event list
     \<Rightarrow> (exn + response) \<times> event list" where
  "batch_session env app_password b recipients tr =
     (case smtp_handshake env (b_sender_email b) app_password tr of
        (Some e, tr1) \<Rightarrow> (Inl e, tr1)
      | (None, tr1) \<Rightarrow>
          (case send_loop env b recipients ([], 0, 0) tr1 of
             (Inl e, tr2) \<Rightarrow> (Inl e, tr2)
           | (Inr (results, successful_sends, failed_sends), tr2) \<Rightarrow>
               (Inr (batch_body results successful_sends failed_sends (length recipients), 200),
                tr2)))"

definition send_emails :: "env \<Rightarrow> request \<Rightarrow> event list \<Rightarrow> response \<times> event list" where
  "send_emails env data tr =
     (let recipients = get_default (req_recipients data) [];
          sender_email = strip (get_default (req_sender_email data) []);
          app_password = strip (get_default (req_app_password data) []);
          job_title = strip (get_default (req_job_title data) []);
          subject = strip (get_default (req_subject data) []);
          pdf_file_base64 = get_default (req_pdf_file data) [];
          pdf_filename = get_default (req_pdf_filename data) (ascii ''CV.pdf'');
          name = strip (get_default (req_name data) []);
          phone_number = strip (get_default (req_phone_number data) [])
      in if recipients = [] then ((error_body (ascii ''No recipients provided''), 400), tr)
         else if sender_email = [] then ((error_body (ascii ''Sender email is required''), 400), tr)
         else if app_password = [] then ((error_body (ascii ''App password is required''), 400), tr)
         else if job_title = [] then ((error_body (ascii ''Job title is required''), 400), tr)
         else if subject = [] then ((error_body (ascii ''Subject is required''), 400), tr)
         else if pdf_file_base64 = [] then ((error_body (ascii ''PDF file is required''), 400), tr)
         else if name = [] then ((error_body (ascii ''Name is required''), 400), tr)
         else if phone_number = [] then
           ((error_body (ascii ''Phone number is required''), 400), tr)
         else
           (case b64decode pdf_file_base64 of
              Inl e \<Rightarrow> ((error_body (ascii ''Invalid PDF file data: '' @ str_exn e), 400), tr)
            | Inr pdf_data \<Rightarrow>
                (case validate_configuration env False tr of
                   (Some e, tr1) \<Rightarrow>
                     ((error_body (ascii ''Configuration error: '' @ str_exn e), 500), tr1)
                 | (None, tr1) \<Rightarrow>
                     (case load_email_template env TEMPLATE_PATH tr1 of
                        (Inl e, tr2) \<Rightarrow>
                          ((error_body (ascii ''Template loading error: '' @ str_exn e), 500), tr2)
                      | (Inr email_template, tr2) \<Rightarrow>
                          (case with_SMTP env
                                  (batch_session env app_password
                                     \<lparr>b_email_template = email_template,
                                      b_sender_email = sender_email,
                                      b_job_title = job_title,
                                      b_subject = subject,
                                      b_name = name,
                                      b_phone_number = phone_number,
                                      b_pdf_data = pdf_data,
                                      b_pdf_filename = pdf_filename,
                                      b_len_recipients = length recipients\<rparr>
                                     recipients)
                                  tr2 of
                             (Inr resp, tr3) \<Rightarrow> (resp, tr3)
                           | (Inl e, tr3) \<Rightarrow>
                               (if is_SMTPException e
                                then ((error_body (ascii ''SMTP error: '' @ str_exn e), 500), tr3)
                                else ((error_body (ascii ''Unexpected error: '' @ str_exn e), 500),
                                      tr3)))))))"

section \<open>Single send and test send (app.py, send\_single\_email and test\_email)\<close>

text \<open>
  The block under \<open>with smtplib.SMTP(...)\<close> of both views: the handshake, one
  \<open>send_one\<close>, and the success body with the given message.
\<close>

definition single_session ::
  "env \<Rightarrow> pystr \<Rightarrow> pystr \<Rightarrow> pystr \<Rightarrow> pystr \<Rightarrow> pystr \<Rightarrow> pybytes \<Rightarrow> pystr \<Rightarrow> pystr \<Rightarrow> event list
     \<Rightarrow> (exn + response) \<times> event list" where
  "single_session env sender_email app_password to_email subject body pdf_data pdf_filename
       success_message tr =
     (case smtp_handshake env sender_email app_password tr of
        (Some e, tr1) \<Rightarrow> (Inl e, tr1)
      | (None, tr1) \<Rightarrow>
          (case send_one env sender_email to_email subject body None (Some pdf_data)
                  (Some pdf_filename) tr1 of
             (Some e, tr2) \<Rightarrow> (Inl e, tr2)
           | (None, tr2) \<Rightarrow>
               (Inr (JDict [(ascii ''success'', JBool True),
                            (ascii ''message'', JStr success_message)], 200),
                tr2)))"

definition send_single_email :: "env \<Rightarrow> request \<Rightarrow> event list \<Rightarrow> response \<times> event list" where
  "send_single_email env data tr =
     (let recipient = get_default (req_recipient data) Map.empty;
          to_email = strip (get_str recipient (ascii ''email''));
          sender_email = strip (get_default (req_sender_email data) []);
          app_password = strip (get_default (req_app_password data) []);
          job_title = strip (get_default (req_job_title data) []);
          subject = strip (get_default (req_subject data) []);
          pdf_file_base64 = get_default (req_pdf_file data) [];
          pdf_filename = get_default (req_pdf_filename data) (ascii ''CV.pdf'');
          name = strip (get_default (req_name data) []);
          phone_number = strip (get_default (req_phone_number data) [])
      in if to_email = [] then ((failure_body (ascii ''Email address is required''), 400), tr)
         else if sender_email = [] then
           ((failure_body (ascii ''Sender email is required''), 400), tr)
         else if app_password = [] then
           ((failure_body (ascii ''App password is required''), 400), tr)
         else if job_title = [] then ((failure_body (ascii ''Job title is required''), 400), tr)
         else if subject = [] then ((failure_body (ascii ''Subject is required''), 400), tr)
         else if pdf_file_base64 = [] then
           ((failure_body (ascii ''PDF file is required''), 400), tr)
         else if name = [] then ((failure_body (ascii ''Name is required''), 400), tr)
         else if phone_number = [] then
           ((failure_body (ascii ''Phone number is required''), 400), tr)
         else
           (case b64decode pdf_file_base64 of
              Inl e \<Rightarrow> ((failure_body (ascii ''Invalid PDF file data: '' @ str_exn e), 400), tr)
            | Inr pdf_data \<Rightarrow>
                (case validate_configuration env False tr of
                   (Some e, tr1) \<Rightarrow>
                     ((failure_body (ascii ''Configuration error: '' @ str_exn e), 500), tr1)
                 | (None, tr1) \<Rightarrow>
                     (case load_email_template env TEMPLATE_PATH tr1 of
                        (Inl e, tr2) \<Rightarrow>
                          ((failure_body (ascii ''Template loading error: '' @ str_exn e), 500),
                           tr2)
                      | (Inr email_template, tr2) \<Rightarrow>
                          (case str_format env email_template
                                  [(ascii ''greeting'', create_greeting recipient),
                                   (ascii ''job_title'', job_title),
                                   (ascii ''name'', name),
                                   (ascii ''phone_number'', phone_number),
                                   (ascii ''email'', sender_email)] of
                             Inl e \<Rightarrow>
                               ((failure_body (ascii ''Unexpected error: '' @ str_exn e), 500), tr2)
                           | Inr body \<Rightarrow>
                               (case with_SMTP env
                                       (single_session env sender_email app_password to_email
                                          subject body pdf_data pdf_filename
                                          (ascii ''Email sent successfully to '' @ to_email))
                                       tr2 of
                                  (Inr resp, tr3) \<Rightarrow> (resp, tr3)
                                | (Inl e, tr3) \<Rightarrow>
                                    ((failure_body (ascii ''Failed to send email: '' @ str_exn e),
                                      500), tr3)))))))"

definition test_email :: "env \<Rightarrow> request \<Rightarrow> event list \<Rightarrow> response \<times> event list" where
  "test_email env data tr =
     (let test_email = strip (get_default (req_email data) []);
          sender_email = strip (get_default (req_sender_email data) []);
          app_password = strip (get_default (req_app_password data) []);
          job_title = strip (get_default (req_job_title data) []);
          subject = strip (get_default (req_subject data) []);
          pdf_file_base64 = get_default (req_pdf_file data) [];
          pdf_filename = get_default (req_pdf_filename data) (ascii ''CV.pdf'')
      in if test_email = [] then ((error_body (ascii ''Email address is required''), 400), tr)
         else if sender_email = [] then ((error_body (ascii ''Sender email is required''), 400), tr)
         else if app_password = [] then ((error_body (ascii ''App password is required''), 400), tr)
         else if job_title = [] then ((error_body (ascii ''Job title is required''), 400), tr)
         else if subject = [] then ((error_body (ascii ''Subject is required''), 400), tr)
         else if pdf_file_base64 = [] then ((error_body (ascii ''PDF file is required''), 400), tr)
         else
           (case b64decode pdf_file_base64 of
              Inl e \<Rightarrow> ((error_body (ascii ''Invalid PDF file data: '' @ str_exn e), 400), tr)
            | Inr pdf_data \<Rightarrow>
                (case validate_configuration env False tr of
                   (Some e, tr1) \<Rightarrow>
                     ((error_body (ascii ''Configuration error: '' @ str_exn e), 500), tr1)
                 | (None, tr1) \<Rightarrow>
                     (case load_email_template env TEMPLATE_PATH tr1 of
                        (Inl e, tr2) \<Rightarrow>
                          ((error_body (ascii ''Template loading error: '' @ str_exn e), 500), tr2)
                      | (Inr email_template, tr2) \<Rightarrow>
                          (let recipient = [ascii ''email'' \<mapsto> test_email,
                                            ascii ''company'' \<mapsto> get_default (req_company data) []]
                           in case str_format env email_template
                                     [(ascii ''greeting'', create_greeting recipient),
                                      (ascii ''job_title'', job_title)] of
                                Inl e \<Rightarrow>
                                  ((error_body (ascii ''Unexpected error: '' @ str_exn e), 500), tr2)
                              | Inr body \<Rightarrow>
                                  (case with_SMTP env
                                          (single_session env sender_email app_password test_email
                                             subject body pdf_data pdf_filename
                                             (ascii ''Test email sent successfully to ''
                                              @ test_email))
                                          tr2 of
                                     (Inr resp, tr3) \<Rightarrow> (resp, tr3)
                                   | (Inl e, tr3) \<Rightarrow>
                                       ((error_body (ascii ''Failed to send email: '' @ str_exn e),
                                         500), tr3)))))))"

section \<open>Observations on messages, responses and transcripts\<close>

text \<open>
  The functions of this section are not part of the program: they read a message, a
  response or a transcript, and the properties below are stated with them.
\<close>

text \<open>The values of the headers with a given name, in order.\<close>

definition header_values :: "(pystr \<times> pystr) list \<Rightarrow> pystr \<Rightarrow> pystr list" where
  "header_values hs nm = map snd (filter (\<lambda>h. fst h = nm) hs)"

text \<open>The attachment parts of a message: the parts with a \<open>Content-Disposition\<close> header.\<close>

definition attachment_parts :: "message \<Rightarrow> mime_part list" where
  "attachment_parts msg =
     filter (\<lambda>p. header_values (part_headers p) (ascii ''Content-Disposition'') \<noteq> [])
       (msg_parts msg)"

text \<open>
  The message that \<open>build_message\<close> returns, written out: the headers of the multipart
  message around the given parts, the HTML part for the encoded body, and the
  attachment part for the given bytes and file name.
\<close>

definition html_part :: "pybytes \<Rightarrow> mime_part" where
  "html_part encoded =
     \<lparr>part_headers =
        [(ascii ''Content-Type'', ascii ''text/html; charset='' @ quoted (ascii ''utf-8'')),
         (ascii ''MIME-Version'', ascii ''1.0''),
         (ascii ''Content-Transfer-Encoding'', ascii ''base64'')],
      part_payload = encodebytes encoded\<rparr>"

definition data_part :: "pybytes \<Rightarrow> pystr \<Rightarrow> mime_part" where
  "data_part data nm =
     \<lparr>part_headers =
        [(ascii ''Content-Type'', ascii ''application/octet-stream''),
         (ascii ''MIME-Version'', ascii ''1.0''),
         (ascii ''Content-Transfer-Encoding'', ascii ''base64''),
         (ascii ''Content-Disposition'', ascii ''attachment; filename='' @ quoted nm)],
      part_payload = encodebytes data\<rparr>"

definition envelope :: "pystr \<Rightarrow> pystr \<Rightarrow> pystr \<Rightarrow> mime_part list \<Rightarrow> message" where
  "envelope sender to_email subject parts =
     \<lparr>msg_headers =
        [(ascii ''Content-Type'', ascii ''multipart/mixed''),
         (ascii ''MIME-Version'', ascii ''1.0''),
         (ascii ''From'', sender), (ascii ''To'', to_email), (ascii ''Subject'', subject)],
      msg_parts = parts\<rparr>"

text \<open>The item of a JSON object under a key.\<close>

fun json_get :: "json \<Rightarrow> pystr \<Rightarrow> json option" where
  "json_get (JDict items) k = map_of items k"
| "json_get j k = None"

text \<open>The addresses a batch sends to: trimmed, the empty ones left out, in input order.\<close>

definition to_emails :: "recipient list \<Rightarrow> pystr list" where
  "to_emails recipients =
     filter (\<lambda>e. e \<noteq> []) (map (\<lambda>r. strip (get_str r (ascii ''email''))) recipients)"

text \<open>
  The results of a batch over a recipient list: one result for each address that the
  batch sends to, in order, each a success or an error, and the two counters counting
  the successes and the errors.
\<close>

definition results_for :: "recipient list \<Rightarrow> json list \<Rightarrow> int \<Rightarrow> int \<Rightarrow> bool" where
  "results_for recipients results successful failed \<longleftrightarrow>
     map (\<lambda>r. json_get r (ascii ''email'')) results
       = map (\<lambda>e. Some (JStr e)) (to_emails recipients) \<and>
     list_all (\<lambda>r. json_get r (ascii ''status'') = Some (JStr (ascii ''success'')) \<or>
                    json_get r (ascii ''status'') = Some (JStr (ascii ''error''))) results \<and>
     successful = int (length (filter (\<lambda>r. json_get r (ascii ''status'')
                                             = Some (JStr (ascii ''success''))) results)) \<and>
     failed = int (length (filter (\<lambda>r. json_get r (ascii ''status'')
                                         = Some (JStr (ascii ''error''))) results))"

text \<open>
  The address the loop sends to for a recipient, and the keyword arguments it gives to
  \<open>email_template.format\<close> for that recipient.
\<close>

definition address :: "recipient \<Rightarrow> pystr" where
  "address recipient = strip (get_str recipient (ascii ''email''))"


text \<open>A request field that is missing, empty or made of whitespace only.\<close>

definition blank :: "pystr option \<Rightarrow> bool" where
  "blank v = list_all isspace (get_default v [])"

fun is_pause :: "event \<Rightarrow> bool" where
  "is_pause (Sleep d) = True"
| "is_pause e = False"

fun is_sendmail :: "event \<Rightarrow> bool" where
  "is_sendmail (SmtpSendmail s r m outcome) = True"
| "is_sendmail e = False"

text \<open>A call to the relay, and a call that failed while the session was being opened.\<close>

fun is_relay_call :: "event \<Rightarrow> bool" where
  "is_relay_call (SmtpConnect h p outcome) = True"
| "is_relay_call (SmtpEhlo outcome) = True"
| "is_relay_call (SmtpStarttls outcome) = True"
| "is_relay_call (SmtpLogin s p outcome) = True"
| "is_relay_call (SmtpSendmail s r m outcome) = True"
| "is_relay_call (SmtpExit outcome) = True"
| "is_relay_call e = False"

fun open_failure :: "event \<Rightarrow> bool" where
  "open_failure (SmtpConnect h p (Some e)) = True"
| "open_failure (SmtpEhlo (Some e)) = True"
| "open_failure (SmtpStarttls (Some e)) = True"
| "open_failure (SmtpLogin s p (Some e)) = True"
| "open_failure e = False"

text \<open>
  In a transcript, every submission to the relay is immediately followed by a pause of
  \<open>SEND_DELAY\<close>.
\<close>

fun pauses_follow_sends :: "event list \<Rightarrow> bool" where
  "pauses_follow_sends [] = True"
| "pauses_follow_sends (e # tr) =
     ((is_sendmail e \<longrightarrow> (case tr of [] \<Rightarrow> False | e' # tr' \<Rightarrow> e' = Sleep SEND_DELAY))
      \<and> pauses_follow_sends tr)"

definition pause_count :: "event list \<Rightarrow> nat" where
  "pause_count tr = length (filter is_pause tr)"

section \<open>A world and requests for the worked examples\<close>

text \<open>
  In this world the template file exists and holds a text without placeholders, which
  \<open>str.format\<close> returns unchanged; the texts are ASCII, which UTF-8 encodes byte for
  code point; and the relay accepts every call, except that \<open>login\<close> and \<open>sendmail\<close>
  answer as the two parameters say.
\<close>

definition sample_world :: "(event list \<Rightarrow> exn option) \<Rightarrow> (event list \<Rightarrow> exn option) \<Rightarrow> env" where
  "sample_world login_outcome sendmail_outcome =
     \<lparr>path_exists = (\<lambda>tr p. True),
      read_text = (\<lambda>tr p. Inr (ascii ''Hello'')),
      read_bytes = (\<lambda>tr p. Inr []),
      path_name = (\<lambda>p. p),
      utf8_encode = (\<lambda>s. Inr (map of_nat s)),
      str_format = (\<lambda>t kw. Inr t),
      smtp_connect = (\<lambda>tr h p. None),
      smtp_ehlo = (\<lambda>tr. None),
      smtp_starttls = (\<lambda>tr. None),
      smtp_login = (\<lambda>tr s p. login_outcome tr),
      smtp_sendmail = (\<lambda>tr s r m. sendmail_outcome tr),
      smtp_exit = (\<lambda>tr. None)\<rparr>"

definition always_ok :: "event list \<Rightarrow> exn option" where
  "always_ok tr = None"

text \<open>The relay refuses the credentials.\<close>

definition login_refused :: "event list \<Rightarrow> exn option" where
  "login_refused tr = Some (SMTPException (ascii ''535''))"

text \<open>The second submission of a transcript is refused by the relay.\<close>

definition second_refused :: "event list \<Rightarrow> exn option" where
  "second_refused tr =
     (if length (filter is_sendmail tr) = 1 then Some (SMTPException (ascii ''550'')) else None)"

text \<open>
  A formatter that renders a template only when it is given exactly two keyword
  arguments, and raises \<open>KeyError\<close> otherwise.
\<close>

definition two_fields_only :: "pystr \<Rightarrow> (pystr \<times> pystr) list \<Rightarrow> exn + pystr" where
  "two_fields_only template kw =
     (if length kw = 2 then Inr template else Inl (OtherError (ascii ''name'')))"


text \<open>A request with every field present; the attachment is the three bytes \<open>ABC\<close>.\<close>

definition sample_request :: "recipient list \<Rightarrow> request" where
  "sample_request rs =
     \<lparr>req_recipients = Some rs,
      req_recipient = (case rs of [] \<Rightarrow> None | r # _ \<Rightarrow> Some r),
      req_email = (case rs of [] \<Rightarrow> None | r # _ \<Rightarrow> r (ascii ''email'')),
      req_company = None,
      req_sender_email = Some (ascii ''me@x.org''),
      req_app_password = Some (ascii ''pw''),
      req_job_title = Some (ascii ''Dev''),
      req_subject = Some (ascii ''Hi''),
      req_pdf_file = Some (ascii ''QUJD''),
      req_pdf_filename = None,
      req_name = Some (ascii ''Al''),
      req_phone_number = Some (ascii ''1'')\<rparr>"

section \<open>Properties\<close>

lemma ascii_simps [simp]:
  "ascii [] = []"
  "ascii (c # cs) = of_char c # ascii cs"
  by (simp_all add: ascii_def)

subsection \<open>Base64 round trip\<close>

text \<open>
  Decoding inverts encoding: first for the alphabet, then for one group of three bytes
  and for a padded last group, then for a line and for the lines of \<open>encodebytes\<close>.
\<close>

lemma table_roundtrip: "i < 64 \<Longrightarrow> table_a2b_base64 (table_b2a_base64 i) = Some i"
  unfolding table_a2b_base64_def table_b2a_base64_def by (simp; arith)

lemma table_not_pad: "i < 64 \<Longrightarrow> table_b2a_base64 i \<noteq> 61"
  unfolding table_b2a_base64_def by (simp; arith)

lemma table_ascii: "table_b2a_base64 i < 128"
  unfolding table_b2a_base64_def by (simp; arith)

lemma unat8_lt: "unat (a :: 8 word) < 256"
  using unsigned_less [of a, where 'a = nat] by simp

lemma div16_shifted: "k < 16 \<Longrightarrow> (m * 16 + k) div 16 = (m::nat)" by simp
lemma mod16_shifted: "k < 16 \<Longrightarrow> (m * 16 + k) mod 16 = (k::nat)" by simp
lemma div4_shifted: "k < 4 \<Longrightarrow> (m * 4 + k) div 4 = (m::nat)" by simp
lemma mod4_shifted: "k < 4 \<Longrightarrow> (m * 4 + k) mod 4 = (k::nat)" by simp
lemma byte_div16: "x < 256 \<Longrightarrow> x div 16 < (16::nat)" by simp
lemma byte_div64: "x < 256 \<Longrightarrow> x div 64 < (4::nat)" by simp
lemma byte_div4: "x < 256 \<Longrightarrow> x div 4 < (64::nat)" by simp
lemma second_sextet: "y < 256 \<Longrightarrow> x mod 4 * 16 + y div 16 < (64::nat)"
proof -
  assume "y < 256"
  then have "y div 16 < 16" by simp
  moreover have "x mod 4 < 4" by simp
  ultimately show ?thesis by linarith
qed
lemma third_sextet: "z < 256 \<Longrightarrow> y mod 16 * 4 + z div 64 < (64::nat)"
proof -
  assume "z < 256"
  then have "z div 64 < 4" by simp
  moreover have "y mod 16 < 16" by simp
  ultimately show ?thesis by linarith
qed
lemma second_sextet_padded: "x mod 4 * 16 < (64::nat)"
proof -
  have "x mod 4 < 4" by simp
  then show ?thesis by linarith
qed
lemma third_sextet_padded: "x mod 16 * 4 < (64::nat)"
proof -
  have "x mod 16 < 16" by simp
  then show ?thesis by linarith
qed

lemma loop_quad0:
  "a2b_base64_loop cs 0 lc pads out = a2b_base64_loop cs 0 lc' pads' out"
proof (induction cs arbitrary: out)
  case Nil
  show ?case by simp
next
  case (Cons c cs)
  show ?case using Cons [of out] by (simp split: option.split)
qed

lemma step_data:
  assumes "i < 64"
  shows "a2b_base64_loop (table_b2a_base64 i # cs) 0 lc p out = a2b_base64_loop cs 1 i 0 out"
    and "a2b_base64_loop (table_b2a_base64 i # cs) 1 lc p out =
         a2b_base64_loop cs 2 (i mod 16) 0 (out @ [of_nat (lc * 4 + i div 16)])"
    and "a2b_base64_loop (table_b2a_base64 i # cs) 2 lc p out =
         a2b_base64_loop cs 3 (i mod 4) 0 (out @ [of_nat (lc * 16 + i div 4)])"
    and "a2b_base64_loop (table_b2a_base64 i # cs) 3 lc p out =
         a2b_base64_loop cs 0 0 0 (out @ [of_nat (lc * 64 + i)])"
  using table_roundtrip [OF assms] table_not_pad [OF assms] by simp_all

lemma decode_triple:
  fixes a b c :: "8 word"
  shows "a2b_base64_loop (b2a_groups [a, b, c] @ rest) 0 lc p out =
         a2b_base64_loop rest 0 0 0 (out @ [a, b, c])"
proof -
  define x y z where "x = unat a" and "y = unat b" and "z = unat c"
  have xyz: "x < 256" "y < 256" "z < 256" using unat8_lt by (simp_all add: x_def y_def z_def)
  have wxyz: "of_nat x = a" "of_nat y = b" "of_nat z = c" by (simp_all add: x_def y_def z_def)
  have i1: "x div 4 < 64" using xyz by simp
  have i2: "x mod 4 * 16 + y div 16 < 64" using xyz by (simp add: second_sextet)
  have i3: "y mod 16 * 4 + z div 64 < 64" using xyz by (simp add: third_sextet)
  have i4: "z mod 64 < 64" by simp
  have e1: "x div 4 * 4 + (x mod 4 * 16 + y div 16) div 16 = x"
    using xyz by (simp add: div16_shifted byte_div16)
  have e2: "(x mod 4 * 16 + y div 16) mod 16 * 16 + (y mod 16 * 4 + z div 64) div 4 = y"
    using xyz by (simp add: mod16_shifted byte_div16 div4_shifted byte_div64)
  have e3: "(y mod 16 * 4 + z div 64) mod 4 * 64 + z mod 64 = z"
    using xyz by (simp add: mod4_shifted byte_div64)
  have "a2b_base64_loop (b2a_groups [a, b, c] @ rest) 0 lc p out =
        a2b_base64_loop (table_b2a_base64 (x div 4) # table_b2a_base64 (x mod 4 * 16 + y div 16)
          # table_b2a_base64 (y mod 16 * 4 + z div 64) # table_b2a_base64 (z mod 64) # rest) 0 lc p out"
    by (simp add: x_def y_def z_def)
  also have "\<dots> = a2b_base64_loop (table_b2a_base64 (x mod 4 * 16 + y div 16)
          # table_b2a_base64 (y mod 16 * 4 + z div 64) # table_b2a_base64 (z mod 64) # rest) 1 (x div 4) 0 out"
    by (simp only: step_data [OF i1])
  also have "\<dots> = a2b_base64_loop (table_b2a_base64 (y mod 16 * 4 + z div 64) # table_b2a_base64 (z mod 64) # rest)
          2 ((x mod 4 * 16 + y div 16) mod 16) 0 (out @ [of_nat x])"
    by (simp only: step_data [OF i2] e1)
  also have "\<dots> = a2b_base64_loop (table_b2a_base64 (z mod 64) # rest)
          3 ((y mod 16 * 4 + z div 64) mod 4) 0 (out @ [of_nat x] @ [of_nat y])"
    by (simp only: step_data [OF i3] e2 append_assoc)
  also have "\<dots> = a2b_base64_loop rest 0 0 0 (out @ [of_nat x] @ [of_nat y] @ [of_nat z])"
    by (simp only: step_data [OF i4] e3 append_assoc)
  finally show ?thesis by (simp add: wxyz)
qed

lemma decode_pair:
  fixes a b :: "8 word"
  shows "a2b_base64_loop (b2a_groups [a, b] @ rest) 0 lc p out = Inr (out @ [a, b])"
proof -
  define x y where "x = unat a" and "y = unat b"
  have xy: "x < 256" "y < 256" using unat8_lt by (simp_all add: x_def y_def)
  have wxy: "of_nat x = a" "of_nat y = b" by (simp_all add: x_def y_def)
  have i1: "x div 4 < 64" using xy by simp
  have i2: "x mod 4 * 16 + y div 16 < 64" using xy by (simp add: second_sextet)
  have i3: "y mod 16 * 4 < 64" by (rule third_sextet_padded)
  have e1: "x div 4 * 4 + (x mod 4 * 16 + y div 16) div 16 = x"
    using xy by (simp add: div16_shifted byte_div16)
  have e2: "(x mod 4 * 16 + y div 16) mod 16 * 16 + (y mod 16 * 4) div 4 = y"
    using xy by (simp add: mod16_shifted byte_div16)
  have "a2b_base64_loop (b2a_groups [a, b] @ rest) 0 lc p out =
        a2b_base64_loop (table_b2a_base64 (x div 4) # table_b2a_base64 (x mod 4 * 16 + y div 16)
          # table_b2a_base64 (y mod 16 * 4) # 61 # rest) 0 lc p out"
    by (simp add: x_def y_def)
  also have "\<dots> = a2b_base64_loop (61 # rest) 3 ((y mod 16 * 4) mod 4) 0
                     (out @ [of_nat x] @ [of_nat y])"
    by (simp only: step_data [OF i1] step_data [OF i2] step_data [OF i3] e1 e2 append_assoc)
  also have "\<dots> = Inr (out @ [a, b])" by (simp add: wxy)
  finally show ?thesis .
qed

lemma decode_single:
  fixes a :: "8 word"
  shows "a2b_base64_loop (b2a_groups [a] @ rest) 0 lc p out = Inr (out @ [a])"
proof -
  define x where "x = unat a"
  have wx: "of_nat x = a" by (simp add: x_def)
  have x: "x < 256" using unat8_lt by (simp add: x_def)
  have i1: "x div 4 < 64" using x by simp
  have i2: "x mod 4 * 16 < 64" by (rule second_sextet_padded)
  have e1: "x div 4 * 4 + (x mod 4 * 16) div 16 = x" by simp
  have "a2b_base64_loop (b2a_groups [a] @ rest) 0 lc p out =
        a2b_base64_loop (table_b2a_base64 (x div 4) # table_b2a_base64 (x mod 4 * 16)
          # 61 # 61 # rest) 0 lc p out"
    by (simp add: x_def)
  also have "\<dots> = a2b_base64_loop (61 # 61 # rest) 2 ((x mod 4 * 16) mod 16) 0 (out @ [of_nat x])"
    by (simp only: step_data [OF i1] step_data [OF i2] e1)
  also have "\<dots> = Inr (out @ [a])" by (simp add: wx)
  finally show ?thesis .
qed

lemma decode_groups:
  "a2b_base64_loop (b2a_groups bs @ rest) 0 lc p out =
     (if length bs mod 3 = 0 then a2b_base64_loop rest 0 0 0 (out @ bs) else Inr (out @ bs))"
proof (induction bs arbitrary: lc p out rule: b2a_groups.induct)
  case (1 a b c r)
  have "a2b_base64_loop (b2a_groups (a # b # c # r) @ rest) 0 lc p out =
        a2b_base64_loop (b2a_groups [a, b, c] @ (b2a_groups r @ rest)) 0 lc p out"
    by simp
  also have "\<dots> = a2b_base64_loop (b2a_groups r @ rest) 0 0 0 (out @ [a, b, c])"
    by (rule decode_triple)
  also have "\<dots> = (if length r mod 3 = 0 then a2b_base64_loop rest 0 0 0 ((out @ [a, b, c]) @ r)
                     else Inr ((out @ [a, b, c]) @ r))"
    by (rule 1)
  finally show ?case by simp
next
  case (2 a b)
  show ?case using decode_pair [of a b rest lc p out] by simp
next
  case (3 a)
  show ?case using decode_single [of a rest lc p out] by simp
next
  case 4
  show ?case using loop_quad0 [of rest lc p out 0 0] by simp
qed

lemma decode_line:
  "a2b_base64_loop (b2a_base64 bs @ rest) 0 lc p out =
     (if length bs mod 3 = 0 then a2b_base64_loop rest 0 0 0 (out @ bs) else Inr (out @ bs))"
proof -
  have nl: "a2b_base64_loop (10 # rest) 0 0 0 (out @ bs) = a2b_base64_loop rest 0 0 0 (out @ bs)"
    by (simp add: table_a2b_base64_def)
  have "a2b_base64_loop (b2a_base64 bs @ rest) 0 lc p out =
        a2b_base64_loop (b2a_groups bs @ (10 # rest)) 0 lc p out"
    by (simp add: b2a_base64_def)
  also have "\<dots> = (if length bs mod 3 = 0 then a2b_base64_loop (10 # rest) 0 0 0 (out @ bs)
                     else Inr (out @ bs))"
    by (rule decode_groups)
  finally show ?thesis by (simp only: nl)
qed

lemma decode_encodebytes: "a2b_base64_loop (encodebytes bs) 0 0 0 out = Inr (out @ bs)"
proof (induction bs arbitrary: out rule: encodebytes.induct)
  case (1 s)
  show ?case
  proof (cases "s = []")
    case True
    then show ?thesis by (simp add: encodebytes.simps)
  next
    case False
    have unf: "encodebytes s = b2a_base64 (take MAXBINSIZE s) @ encodebytes (drop MAXBINSIZE s)"
      using False by (subst encodebytes.simps) simp
    show ?thesis
    proof (cases "length (take MAXBINSIZE s) mod 3 = 0")
      case True
      have "a2b_base64_loop (encodebytes s) 0 0 0 out =
            a2b_base64_loop (encodebytes (drop MAXBINSIZE s)) 0 0 0 (out @ take MAXBINSIZE s)"
        unfolding unf using True by (simp add: decode_line)
      also have "\<dots> = Inr ((out @ take MAXBINSIZE s) @ drop MAXBINSIZE s)"
        using False by (rule 1)
      finally show ?thesis by simp
    next
      case odd: False
      have "length s < MAXBINSIZE"
      proof (rule ccontr)
        assume "\<not> length s < MAXBINSIZE"
        then have "length (take MAXBINSIZE s) = 57" by (simp add: MAXBINSIZE_def)
        with odd show False by simp
      qed
      then have whole: "take MAXBINSIZE s = s" "drop MAXBINSIZE s = []" by simp_all
      have "a2b_base64_loop (encodebytes s) 0 0 0 out = Inr (out @ take MAXBINSIZE s)"
        unfolding unf using odd by (simp add: decode_line)
      then show ?thesis by (simp add: whole)
    qed
  qed
qed

lemma b2a_groups_ascii: "c \<in> set (b2a_groups bs) \<Longrightarrow> c < 128"
  by (induction bs rule: b2a_groups.induct) (auto simp: table_ascii)

lemma encodebytes_ascii: "c \<in> set (encodebytes bs) \<Longrightarrow> c < 128"
proof (induction bs rule: encodebytes.induct)
  case (1 s)
  show ?case
  proof (cases "s = []")
    case True
    with 1 show ?thesis by (simp add: encodebytes.simps)
  next
    case False
    have unf: "encodebytes s = b2a_base64 (take MAXBINSIZE s) @ encodebytes (drop MAXBINSIZE s)"
      using False by (subst encodebytes.simps) simp
    from 1(2) have "c \<in> set (b2a_groups (take MAXBINSIZE s)) \<or> c = 10 \<or>
                    c \<in> set (encodebytes (drop MAXBINSIZE s))"
      unfolding unf by (auto simp: b2a_base64_def)
    then show ?thesis using 1(1) [OF False] b2a_groups_ascii by auto
  qed
qed

lemma b64decode_encodebytes: "b64decode (encodebytes bs) = Inr bs"
proof -
  have "\<not> list_ex (\<lambda>c. 128 \<le> c) (encodebytes bs)"
    by (auto simp: list_ex_iff dest!: encodebytes_ascii)
  then show ?thesis
    using decode_encodebytes [of bs "[]"] by (simp add: b64decode_def a2b_base64_def)
qed

lemma b64decode_b64encode: "b64decode (b64encode bs) = Inr bs"
proof -
  have "\<not> list_ex (\<lambda>c. 128 \<le> c) (b2a_groups bs)"
    by (auto simp: list_ex_iff dest!: b2a_groups_ascii)
  then show ?thesis
    using decode_groups [of bs "[]" 0 0 "[]"]
    by (simp add: b64decode_def a2b_base64_def b64encode_def)
qed

subsection \<open>Trimming and the greeting\<close>

lemma strip_empty_iff: "strip s = [] \<longleftrightarrow> list_all isspace s"
proof -
  have "list_all isspace (dropWhile isspace s) \<longleftrightarrow> dropWhile isspace s = []"
  proof
    assume all: "list_all isspace (dropWhile isspace s)"
    show "dropWhile isspace s = []"
    proof (rule ccontr)
      assume ne: "dropWhile isspace s \<noteq> []"
      then have "\<not> isspace (hd (dropWhile isspace s))" by (rule hd_dropWhile)
      moreover have "hd (dropWhile isspace s) \<in> set (dropWhile isspace s)"
        using ne by (rule hd_in_set)
      ultimately show False using all by (simp add: list_all_iff)
    qed
  next
    assume e: "dropWhile isspace s = []"
    show "list_all isspace (dropWhile isspace s)" unfolding e by simp
  qed
  moreover have "strip s = [] \<longleftrightarrow> list_all isspace (dropWhile isspace s)"
    by (simp add: strip_def list_all_iff)
  ultimately show ?thesis by (simp add: list_all_iff)
qed

lemma strip_trimmed:
  assumes "s \<noteq> []" "\<not> isspace (hd s)" "\<not> isspace (last s)"
  shows "strip s = s"
proof -
  have 1: "dropWhile isspace s = s"
    using assms(1,2) by (cases s) simp_all
  have "rev s \<noteq> []" "\<not> isspace (hd (rev s))"
    using assms(1,3) by (simp_all add: hd_rev)
  then have 2: "dropWhile isspace (rev s) = rev s"
    by (cases "rev s") simp_all
  show ?thesis by (simp add: strip_def 1 2)
qed

lemma strip_Nil: "strip [] = []"
  by (simp add: strip_def)

text \<open>
  C5.  The greeting builder is a total function of the recipient record.  When the
  record has a company that is not blank after trimming, the greeting is the trimmed
  company followed by \<open>" Hiring Team"\<close>; when the company is absent, empty or made of
  whitespace only, the greeting is \<open>"Hiring Team"\<close>.  For a company without surrounding
  whitespace, such as \<open>"Acme"\<close>, the trimmed company is the company itself, and the
  greeting is the company followed by \<open>" Hiring Team"\<close>.
\<close>

theorem create_greeting_spec:
  "create_greeting r =
     (case r (ascii ''company'') of
        None \<Rightarrow> ascii ''Hiring Team''
      | Some c \<Rightarrow> if list_all isspace c then ascii ''Hiring Team''
                  else strip c @ ascii '' Hiring Team'')
   \<and>
   (r (ascii ''company'') = Some c \<longrightarrow> c \<noteq> [] \<longrightarrow> \<not> isspace (hd c) \<longrightarrow> \<not> isspace (last c) \<longrightarrow>
      create_greeting r = c @ ascii '' Hiring Team'')"
proof (rule conjI)
  show "create_greeting r =
     (case r (ascii ''company'') of
        None \<Rightarrow> ascii ''Hiring Team''
      | Some c \<Rightarrow> if list_all isspace c then ascii ''Hiring Team''
                  else strip c @ ascii '' Hiring Team'')"
    by (simp add: create_greeting_def get_str_def Let_def strip_empty_iff [symmetric] strip_Nil
        split: option.split)
  show "r (ascii ''company'') = Some c \<longrightarrow> c \<noteq> [] \<longrightarrow> \<not> isspace (hd c) \<longrightarrow> \<not> isspace (last c) \<longrightarrow>
      create_greeting r = c @ ascii '' Hiring Team''"
    by (simp add: create_greeting_def get_str_def Let_def strip_trimmed)
qed

theorem create_greeting_spec_witness:
  "create_greeting [ascii ''company'' \<mapsto> ascii ''Acme''] = ascii ''Acme Hiring Team'' \<and>
   create_greeting [ascii ''company'' \<mapsto> ascii '' Acme Ltd  ''] = ascii ''Acme Ltd Hiring Team'' \<and>
   create_greeting [ascii ''company'' \<mapsto> []] = ascii ''Hiring Team'' \<and>
   create_greeting [ascii ''company'' \<mapsto> ascii ''  ''] = ascii ''Hiring Team'' \<and>
   create_greeting [ascii ''email'' \<mapsto> ascii ''a@y''] = ascii ''Hiring Team''"
  using create_greeting_spec [of "[ascii ''company'' \<mapsto> ascii ''Acme'']" "ascii ''Acme''"]
        create_greeting_spec [of "[ascii ''company'' \<mapsto> ascii '' Acme Ltd  '']" "[]"]
        create_greeting_spec [of "[ascii ''company'' \<mapsto> []]" "[]"]
        create_greeting_spec [of "[ascii ''company'' \<mapsto> ascii ''  '']" "[]"]
        create_greeting_spec [of "[ascii ''email'' \<mapsto> ascii ''a@y'']" "[]"]
  by (simp add: strip_def isspace_def)

subsection \<open>Message builder\<close>

lemma surrogateescape_round_trip: "surrogateescape_encode (surrogateescape_decode data) = data"
  by (induction data) (simp_all add: surrogateescape_encode_def surrogateescape_decode_def)

lemma header_values_simps [simp]:
  "header_values [] nm = []"
  "header_values ((k, v) # hs) nm = (if k = nm then v # header_values hs nm else header_values hs nm)"
  by (simp_all add: header_values_def)

lemma ascii_eq_iff [simp]: "ascii s = ascii t \<longleftrightarrow> s = t"
  by (simp add: ascii_def inj_map_eq_map [OF inj_of_char] )

lemma build_message_data:
  assumes "data \<noteq> []"
  shows "build_message env sender to_email subject body_text path (Some data) filename tr =
     (case utf8_encode env body_text of
        Inl e \<Rightarrow> (Inl e, tr)
      | Inr encoded \<Rightarrow>
          (Inr (envelope sender to_email subject
                 [html_part encoded, data_part data (format_optional filename)]), tr))"
  using assms
  by (simp add: build_message_def MIMEText_utf8_def MIMEMultipart_def set_item_def attach_def
      MIMEBase_def set_payload_def encode_base64_def add_header_def Let_def envelope_def
      html_part_def data_part_def surrogateescape_round_trip split: sum.split)

lemma build_message_no_attachment:
  assumes "\<not> truthy data" "\<not> truthy path"
  shows "build_message env sender to_email subject body_text path data filename tr =
     (case utf8_encode env body_text of
        Inl e \<Rightarrow> (Inl e, tr)
      | Inr encoded \<Rightarrow> (Inr (envelope sender to_email subject [html_part encoded]), tr))"
  using assms
  by (simp add: build_message_def MIMEText_utf8_def MIMEMultipart_def set_item_def attach_def
      Let_def envelope_def html_part_def split: sum.split)

lemma attachment_parts_envelope:
  "attachment_parts (envelope sender to_email subject [html_part encoded, data_part data nm]) =
     [data_part data nm]"
  "attachment_parts (envelope sender to_email subject [html_part encoded]) = []"
  by (simp_all add: attachment_parts_def envelope_def html_part_def data_part_def)

text \<open>
  C6 (amended).  When the attachment bytes are not empty and the builder returns a
  message, the message has \<open>From\<close>, \<open>To\<close> and \<open>Subject\<close> equal to the sender, the
  recipient and the subject; its parts are exactly an HTML part and an attachment part.
  The HTML part is typed \<open>text/html\<close> with character set \<open>utf-8\<close> and holds the UTF-8
  bytes of the body in base64.  The attachment part is typed
  \<open>application/octet-stream\<close>, has the transfer encoding \<open>base64\<close>, carries the header
  \<open>Content-Disposition: attachment; filename="<name>"\<close> with the given file name, and
  its payload decodes to the given bytes.
\<close>

theorem build_message_with_attachment:
  assumes "data \<noteq> []"
    and "build_message env sender to_email subject body_text path (Some data) (Some filename) tr
           = (Inr msg, tr')"
  shows "header_values (msg_headers msg) (ascii ''From'') = [sender] \<and>
         header_values (msg_headers msg) (ascii ''To'') = [to_email] \<and>
         header_values (msg_headers msg) (ascii ''Subject'') = [subject] \<and>
         (\<exists>html att encoded.
            msg_parts msg = [html, att] \<and>
            header_values (part_headers html) (ascii ''Content-Type'')
              = [ascii ''text/html; charset='' @ quoted (ascii ''utf-8'')] \<and>
            header_values (part_headers html) (ascii ''Content-Transfer-Encoding'')
              = [ascii ''base64''] \<and>
            utf8_encode env body_text = Inr encoded \<and>
            b64decode (part_payload html) = Inr encoded \<and>
            attachment_parts msg = [att] \<and>
            header_values (part_headers att) (ascii ''Content-Type'')
              = [ascii ''application/octet-stream''] \<and>
            header_values (part_headers att) (ascii ''Content-Transfer-Encoding'')
              = [ascii ''base64''] \<and>
            header_values (part_headers att) (ascii ''Content-Disposition'')
              = [ascii ''attachment; filename='' @ quoted filename] \<and>
            b64decode (part_payload att) = Inr data)"
proof -
  from assms obtain encoded where
    enc: "utf8_encode env body_text = Inr encoded" and
    msg: "msg = envelope sender to_email subject [html_part encoded, data_part data filename]"
    by (auto simp: build_message_data split: sum.splits)
  have heads: "header_values (msg_headers msg) (ascii ''From'') = [sender]"
      "header_values (msg_headers msg) (ascii ''To'') = [to_email]"
      "header_values (msg_headers msg) (ascii ''Subject'') = [subject]"
    by (simp_all add: msg envelope_def)
  have parts: "msg_parts msg = [html_part encoded, data_part data filename]"
    by (simp add: msg envelope_def)
  have html: "header_values (part_headers (html_part encoded)) (ascii ''Content-Type'')
              = [ascii ''text/html; charset='' @ quoted (ascii ''utf-8'')]"
       "header_values (part_headers (html_part encoded)) (ascii ''Content-Transfer-Encoding'')
              = [ascii ''base64'']"
       "b64decode (part_payload (html_part encoded)) = Inr encoded"
    by (simp_all add: html_part_def b64decode_encodebytes)
  have att: "header_values (part_headers (data_part data filename)) (ascii ''Content-Type'')
              = [ascii ''application/octet-stream'']"
       "header_values (part_headers (data_part data filename)) (ascii ''Content-Transfer-Encoding'')
              = [ascii ''base64'']"
       "header_values (part_headers (data_part data filename)) (ascii ''Content-Disposition'')
              = [ascii ''attachment; filename='' @ quoted filename]"
       "b64decode (part_payload (data_part data filename)) = Inr data"
    by (simp_all add: data_part_def b64decode_encodebytes)
  have one: "attachment_parts msg = [data_part data filename]"
    by (simp add: msg attachment_parts_envelope)
  show ?thesis using heads parts html att one enc by blast
qed

theorem build_message_with_attachment_witness:
  "[65, 66, 67 :: 8 word] \<noteq> [] \<and>
   build_message (sample_world always_ok always_ok) (ascii ''a@x'') (ascii ''b@y'') (ascii ''Hi'')
       (ascii ''Hello'') None (Some [65, 66, 67]) (Some (ascii ''CV.pdf'')) []
     = (Inr (envelope (ascii ''a@x'') (ascii ''b@y'') (ascii ''Hi'')
              [html_part [72, 101, 108, 108, 111], data_part [65, 66, 67] (ascii ''CV.pdf'')]), []) \<and>
   header_values
     (msg_headers (envelope (ascii ''a@x'') (ascii ''b@y'') (ascii ''Hi'')
        [html_part [72, 101, 108, 108, 111], data_part [65, 66, 67] (ascii ''CV.pdf'')]))
     (ascii ''From'') = [ascii ''a@x''] \<and>
   map (\<lambda>p. b64decode (part_payload p))
     (attachment_parts (envelope (ascii ''a@x'') (ascii ''b@y'') (ascii ''Hi'')
        [html_part [72, 101, 108, 108, 111], data_part [65, 66, 67] (ascii ''CV.pdf'')]))
     = [Inr [65, 66, 67]]"
proof -
  have ne: "[65, 66, 67 :: 8 word] \<noteq> []" by simp
  have run: "build_message (sample_world always_ok always_ok) (ascii ''a@x'') (ascii ''b@y'')
       (ascii ''Hi'') (ascii ''Hello'') None (Some [65, 66, 67]) (Some (ascii ''CV.pdf'')) []
     = (Inr (envelope (ascii ''a@x'') (ascii ''b@y'') (ascii ''Hi'')
              [html_part [72, 101, 108, 108, 111], data_part [65, 66, 67] (ascii ''CV.pdf'')]), [])"
    by (simp add: build_message_data sample_world_def)
  show ?thesis
    using build_message_with_attachment [OF ne run] ne run by auto
qed

text \<open>
  C6 as stated fails for an attachment given as the empty byte string: the message has
  no attachment part.
\<close>

theorem build_message_empty_attachment_counterexample:
  "\<not> isl (fst (build_message (sample_world always_ok always_ok) (ascii ''a@x'') (ascii ''b@y'')
       (ascii ''Hi'') (ascii ''Hello'') None (Some []) (Some (ascii ''CV.pdf'')) [])) \<and>
   attachment_parts (projr (fst (build_message (sample_world always_ok always_ok) (ascii ''a@x'')
       (ascii ''b@y'') (ascii ''Hi'') (ascii ''Hello'') None (Some []) (Some (ascii ''CV.pdf'')) [])))
     = []"
  by (simp add: build_message_no_attachment sample_world_def attachment_parts_envelope)

text \<open>
  C9 (amended).  For every byte string that is not empty: the standard base64 payload
  of the bytes decodes to the bytes, and in a message built with the bytes as
  attachment there is exactly one attachment part, whose base64 payload decodes to
  the same bytes.
\<close>

theorem attachment_round_trip:
  assumes "pdf_data \<noteq> []"
    and "build_message env sender to_email subject body_text path (Some pdf_data) filename tr
           = (Inr msg, tr')"
  shows "b64decode (b64encode pdf_data) = Inr pdf_data \<and>
         map (\<lambda>p. b64decode (part_payload p)) (attachment_parts msg) = [Inr pdf_data]"
proof -
  from assms obtain encoded where
    msg: "msg = envelope sender to_email subject
                  [html_part encoded, data_part pdf_data (format_optional filename)]"
    by (auto simp: build_message_data split: sum.splits)
  have "attachment_parts msg = [data_part pdf_data (format_optional filename)]"
    by (simp add: msg attachment_parts_envelope)
  moreover have "b64decode (part_payload (data_part pdf_data (format_optional filename)))
                 = Inr pdf_data"
    by (simp add: data_part_def b64decode_encodebytes)
  ultimately show ?thesis by (simp add: b64decode_b64encode)
qed

theorem attachment_round_trip_witness:
  "b64decode (ascii ''QUJD'') = Inr [65, 66, 67] \<and>
   b64encode [65, 66, 67] = ascii ''QUJD'' \<and>
   map (\<lambda>p. b64decode (part_payload p))
     (attachment_parts (projr (fst (build_message (sample_world always_ok always_ok)
        (ascii ''a@x'') (ascii ''b@y'') (ascii ''Hi'') (ascii ''Hello'') None
        (Some [65, 66, 67]) (Some (ascii ''CV.pdf'')) []))))
     = [Inr [65, 66, 67]]"
proof -
  have ne: "[65, 66, 67 :: 8 word] \<noteq> []" by simp
  have enc: "b64encode [65, 66, 67] = ascii ''QUJD''"
    by (simp add: b64encode_def table_b2a_base64_def)
  have run: "build_message (sample_world always_ok always_ok) (ascii ''a@x'') (ascii ''b@y'')
       (ascii ''Hi'') (ascii ''Hello'') None (Some [65, 66, 67]) (Some (ascii ''CV.pdf'')) []
     = (Inr (projr (fst (build_message (sample_world always_ok always_ok) (ascii ''a@x'')
         (ascii ''b@y'') (ascii ''Hi'') (ascii ''Hello'') None (Some [65, 66, 67])
         (Some (ascii ''CV.pdf'')) []))), [])"
    by (simp add: build_message_data sample_world_def)
  show ?thesis
    using attachment_round_trip [OF ne run] enc by simp
qed

text \<open>
  C9 as stated fails for the empty byte string: its payload is the empty string, which
  the batch view refuses as a missing attachment, and a message built with the decoded
  (empty) bytes has no attachment part to decode.
\<close>

theorem attachment_round_trip_counterexample:
  "b64decode (b64encode []) = Inr [] \<and>
   send_emails (sample_world always_ok always_ok)
     ((sample_request [[ascii ''email'' \<mapsto> ascii ''b@y'']])\<lparr>req_pdf_file := Some (b64encode [])\<rparr>) []
     = ((error_body (ascii ''PDF file is required''), 400), []) \<and>
   attachment_parts (projr (fst (build_message (sample_world always_ok always_ok) (ascii ''a@x'')
       (ascii ''b@y'') (ascii ''Hi'') (ascii ''Hello'') None (Some (projr (b64decode (b64encode []))))
       (Some (ascii ''CV.pdf'')) [])))
     = []"
proof -
  have d: "b64decode (b64encode []) = Inr []" by (rule b64decode_b64encode)
  have "strip (ascii ''me@x.org'') \<noteq> []" "strip (ascii ''pw'') \<noteq> []" "strip (ascii ''Dev'') \<noteq> []"
       "strip (ascii ''Hi'') \<noteq> []" "strip (ascii ''Al'') \<noteq> []" "strip (ascii ''1'') \<noteq> []"
    by (simp_all add: strip_def isspace_def)
  then have h: "send_emails (sample_world always_ok always_ok)
     ((sample_request [[ascii ''email'' \<mapsto> ascii ''b@y'']])\<lparr>req_pdf_file := Some (b64encode [])\<rparr>) []
     = ((error_body (ascii ''PDF file is required''), 400), [])"
    by (simp add: send_emails_def sample_request_def b64encode_def Let_def)
  show ?thesis unfolding d using d h
    by (simp add: build_message_no_attachment sample_world_def attachment_parts_envelope)
qed

text \<open>
  C10.  When the builder is called with the empty byte string as attachment data and
  without an attachment path, the message it returns has no attachment part: its only
  part is the HTML part, nothing outside the program is touched, and the result is the
  one the builder gives when the attachment data are absent.
\<close>

theorem build_message_empty_data:
  assumes "\<not> truthy path"
    and "build_message env sender to_email subject body_text path (Some []) filename tr
           = (Inr msg, tr')"
  shows "attachment_parts msg = [] \<and>
         (\<exists>html. msg_parts msg = [html] \<and>
            header_values (part_headers html) (ascii ''Content-Type'')
              = [ascii ''text/html; charset='' @ quoted (ascii ''utf-8'')]) \<and>
         tr' = tr \<and>
         build_message env sender to_email subject body_text path None filename tr = (Inr msg, tr')"
proof -
  have e: "\<not> truthy (Some ([] :: pybytes))" "\<not> truthy (None :: pybytes option)" by simp_all
  from assms(2) obtain encoded where
    enc: "utf8_encode env body_text = Inr encoded" and
    msg: "msg = envelope sender to_email subject [html_part encoded]" and tr: "tr' = tr"
    by (auto simp: build_message_no_attachment [OF e(1) assms(1)] split: sum.splits)
  have same: "build_message env sender to_email subject body_text path None filename tr = (Inr msg, tr')"
    by (simp add: build_message_no_attachment [OF e(2) assms(1)] enc msg tr)
  have "msg_parts msg = [html_part encoded]" by (simp add: msg envelope_def)
  moreover have "header_values (part_headers (html_part encoded)) (ascii ''Content-Type'')
              = [ascii ''text/html; charset='' @ quoted (ascii ''utf-8'')]"
    by (simp add: html_part_def)
  ultimately show ?thesis using same tr by (simp add: msg attachment_parts_envelope)
qed

theorem build_message_empty_data_witness:
  "\<not> truthy (None :: pystr option) \<and>
   build_message (sample_world always_ok always_ok) (ascii ''a@x'') (ascii ''b@y'') (ascii ''Hi'')
       (ascii ''Hello'') None (Some []) (Some (ascii ''CV.pdf'')) []
     = (Inr (envelope (ascii ''a@x'') (ascii ''b@y'') (ascii ''Hi'')
              [html_part [72, 101, 108, 108, 111]]), []) \<and>
   attachment_parts (envelope (ascii ''a@x'') (ascii ''b@y'') (ascii ''Hi'')
              [html_part [72, 101, 108, 108, 111]]) = [] \<and>
   build_message (sample_world always_ok always_ok) (ascii ''a@x'') (ascii ''b@y'') (ascii ''Hi'')
       (ascii ''Hello'') None None (Some (ascii ''CV.pdf'')) []
     = (Inr (envelope (ascii ''a@x'') (ascii ''b@y'') (ascii ''Hi'')
              [html_part [72, 101, 108, 108, 111]]), [])"
proof -
  have p: "\<not> truthy (None :: pystr option)" by simp
  have run: "build_message (sample_world always_ok always_ok) (ascii ''a@x'') (ascii ''b@y'')
       (ascii ''Hi'') (ascii ''Hello'') None (Some []) (Some (ascii ''CV.pdf'')) []
     = (Inr (envelope (ascii ''a@x'') (ascii ''b@y'') (ascii ''Hi'')
              [html_part [72, 101, 108, 108, 111]]), [])"
    by (simp add: build_message_no_attachment sample_world_def)
  show ?thesis using build_message_empty_data [OF p run] p run by simp
qed

subsection \<open>The loop over the recipients\<close>

lemma build_message_no_path:
  "snd (build_message env sender to_email subject body_text None data filename tr) = tr"
proof (cases "truthy data")
  case True
  then obtain d where "data = Some d" "d \<noteq> []" by (cases data) auto
  then show ?thesis by (simp add: build_message_data split: sum.split)
next
  case False
  then show ?thesis by (simp add: build_message_no_attachment split: sum.split)
qed

lemma send_one_events:
  assumes "send_one env sender recipient subject body None data filename tr = (outcome, tr')"
  shows "tr' = tr \<or> (\<exists>msg. tr' = tr @ [SmtpSendmail sender [recipient] msg outcome])"
proof -
  obtain res tr1 where
    bm: "build_message env sender recipient subject body None data filename tr = (res, tr1)"
    by (cases "build_message env sender recipient subject body None data filename tr")
  have "tr1 = tr" using build_message_no_path [of env sender recipient subject body data filename tr] bm
    by simp
  with assms bm show ?thesis
    by (cases res) (auto simp: send_one_def Let_def)
qed

lemma pauses_follow_sends_append:
  "pauses_follow_sends xs \<Longrightarrow> pauses_follow_sends ys \<Longrightarrow> pauses_follow_sends (xs @ ys)"
  by (induction xs) (auto split: list.splits)

lemma pause_count_append [simp]: "pause_count (xs @ ys) = pause_count xs + pause_count ys"
  by (simp add: pause_count_def)

lemma pause_count_simps [simp]:
  "pause_count [] = 0"
  "pause_count (e # tr) = (if is_pause e then 1 else 0) + pause_count tr"
  by (simp_all add: pause_count_def)

text \<open>One pass of the loop body over the transcript.\<close>

lemma send_then_delay:
  assumes "send_one env sender recipient subject body None data filename tr = (outcome, tr1)"
  shows "\<exists>new. delay_between b tr1 = tr @ new \<and>
           list_all (\<lambda>e. is_sendmail e \<or> is_pause e) new \<and>
           (if 1 < b_len_recipients b
            then pauses_follow_sends new \<and> pause_count new = 1
            else pause_count new = 0)"
  using send_one_events [OF assms]
  by (auto simp: delay_between_def)

lemma to_emails_simps [simp]:
  "to_emails [] = []"
  "to_emails (r # rs) =
     (if strip (get_str r (ascii ''email'')) = [] then to_emails rs
      else strip (get_str r (ascii ''email'')) # to_emails rs)"
  by (simp_all add: to_emails_def)

lemma send_loop_transcript:
  assumes "send_loop env b rs acc tr = (res, tr')"
  shows "\<exists>new. tr' = tr @ new \<and> list_all (\<lambda>e. is_sendmail e \<or> is_pause e) new \<and>
           (if 1 < b_len_recipients b then pauses_follow_sends new else pause_count new = 0)"
  using assms
proof (induction rs arbitrary: acc tr)
  case Nil
  then show ?case by simp
next
  case (Cons r rs)
  obtain results s f where acc: "acc = (results, s, f)" by (cases acc)
  let ?to = "strip (get_str r (ascii ''email''))"
  let ?fmt = "str_format env (b_email_template b)
                [(ascii ''greeting'', create_greeting r), (ascii ''job_title'', b_job_title b),
                 (ascii ''name'', b_name b), (ascii ''phone_number'', b_phone_number b),
                 (ascii ''email'', b_sender_email b)]"
  show ?case
  proof (cases "?to = []")
    case True
    with Cons.prems acc have "send_loop env b rs (results, s, f) tr = (res, tr')" by simp
    from Cons.IH [OF this] show ?thesis .
  next
    case False
    show ?thesis
    proof (cases ?fmt)
      case (Inl e)
      with Cons.prems acc False have "tr' = tr" by (simp add: Let_def)
      then show ?thesis by simp
    next
      case (Inr body)
      obtain outcome tr1 where
        so: "send_one env (b_sender_email b) ?to (b_subject b) body None (Some (b_pdf_data b))
               (Some (b_pdf_filename b)) tr = (outcome, tr1)"
        by (cases "send_one env (b_sender_email b) ?to (b_subject b) body None
                     (Some (b_pdf_data b)) (Some (b_pdf_filename b)) tr")
      from send_then_delay [OF so, of b] obtain new1 where
        n1: "delay_between b tr1 = tr @ new1"
            "list_all (\<lambda>e. is_sendmail e \<or> is_pause e) new1"
            "if 1 < b_len_recipients b then pauses_follow_sends new1 \<and> pause_count new1 = 1
             else pause_count new1 = 0"
        by blast
      from Cons.prems acc False Inr so obtain acc' where
        "send_loop env b rs acc' (delay_between b tr1) = (res, tr')"
        by (cases outcome) (auto simp: Let_def)
      from Cons.IH [OF this] obtain new2 where
        n2: "tr' = delay_between b tr1 @ new2"
            "list_all (\<lambda>e. is_sendmail e \<or> is_pause e) new2"
            "if 1 < b_len_recipients b then pauses_follow_sends new2 else pause_count new2 = 0"
        by blast
      have "tr' = tr @ (new1 @ new2)" using n1(1) n2(1) by simp
      moreover have "list_all (\<lambda>e. is_sendmail e \<or> is_pause e) (new1 @ new2)"
        using n1(2) n2(2) by simp
      moreover have "if 1 < b_len_recipients b then pauses_follow_sends (new1 @ new2)
                     else pause_count (new1 @ new2) = 0"
        using n1(3) n2(3) by (auto intro: pauses_follow_sends_append)
      ultimately show ?thesis by blast
    qed
  qed
qed

lemma send_loop_results:
  assumes "send_loop env b rs (results, s, f) tr = (Inr (results', s', f'), tr')"
  shows "\<exists>added new.
           results' = results @ added \<and> tr' = tr @ new \<and>
           map (\<lambda>r. json_get r (ascii ''email'')) added = map (\<lambda>e. Some (JStr e)) (to_emails rs) \<and>
           list_all (\<lambda>r. json_get r (ascii ''status'') = Some (JStr (ascii ''success'')) \<or>
                          json_get r (ascii ''status'') = Some (JStr (ascii ''error''))) added \<and>
           s' = s + int (length (filter (\<lambda>r. json_get r (ascii ''status'')
                                             = Some (JStr (ascii ''success''))) added)) \<and>
           f' = f + int (length (filter (\<lambda>r. json_get r (ascii ''status'')
                                             = Some (JStr (ascii ''error''))) added)) \<and>
           (if 1 < b_len_recipients b then pause_count new = length added
            else pause_count new = 0)"
  using assms
proof (induction rs arbitrary: results s f tr)
  case Nil
  then show ?case by simp
next
  case (Cons r rs)
  let ?to = "strip (get_str r (ascii ''email''))"
  let ?fmt = "str_format env (b_email_template b)
                [(ascii ''greeting'', create_greeting r), (ascii ''job_title'', b_job_title b),
                 (ascii ''name'', b_name b), (ascii ''phone_number'', b_phone_number b),
                 (ascii ''email'', b_sender_email b)]"
  show ?case
  proof (cases "?to = []")
    case True
    with Cons.prems have "send_loop env b rs (results, s, f) tr = (Inr (results', s', f'), tr')"
      by simp
    from Cons.IH [OF this] True show ?thesis by simp
  next
    case False
    show ?thesis
    proof (cases ?fmt)
      case (Inl e)
      with Cons.prems False show ?thesis by (simp add: Let_def)
    next
      case (Inr body)
      obtain outcome tr1 where
        so: "send_one env (b_sender_email b) ?to (b_subject b) body None (Some (b_pdf_data b))
               (Some (b_pdf_filename b)) tr = (outcome, tr1)"
        by (cases "send_one env (b_sender_email b) ?to (b_subject b) body None
                     (Some (b_pdf_data b)) (Some (b_pdf_filename b)) tr")
      from send_then_delay [OF so, of b] obtain new1 where
        n1: "delay_between b tr1 = tr @ new1"
            "if 1 < b_len_recipients b then pauses_follow_sends new1 \<and> pause_count new1 = 1
             else pause_count new1 = 0"
        by blast
      define one where "one = (case outcome of None \<Rightarrow> success_result ?to
                                | Some e \<Rightarrow> error_result ?to (str_exn e))"
      define s1 where "s1 = (case outcome of None \<Rightarrow> s + 1 | Some e \<Rightarrow> s)"
      define f1 where "f1 = (case outcome of None \<Rightarrow> f | Some e \<Rightarrow> f + 1)"
      have step: "send_loop env b rs (results @ [one], s1, f1) (delay_between b tr1)
                  = (Inr (results', s', f'), tr')"
        using Cons.prems False Inr so
        by (cases outcome) (simp_all add: Let_def one_def s1_def f1_def)
      have one_email: "json_get one (ascii ''email'') = Some (JStr ?to)"
        by (cases outcome) (simp_all add: one_def success_result_def error_result_def)
      have one_status: "(json_get one (ascii ''status'') = Some (JStr (ascii ''success'')))
                        = (outcome = None)"
           "(json_get one (ascii ''status'') = Some (JStr (ascii ''error''))) = (outcome \<noteq> None)"
        by (cases outcome; simp add: one_def success_result_def error_result_def)+
      have counts: "s1 = s + (if outcome = None then 1 else 0)"
                   "f1 = f + (if outcome = None then 0 else 1)"
        by (cases outcome; simp add: s1_def f1_def)+
      from Cons.IH [OF step] obtain added new2 where
        a: "results' = (results @ [one]) @ added" "tr' = delay_between b tr1 @ new2"
           "map (\<lambda>r. json_get r (ascii ''email'')) added = map (\<lambda>e. Some (JStr e)) (to_emails rs)"
           "list_all (\<lambda>r. json_get r (ascii ''status'') = Some (JStr (ascii ''success'')) \<or>
                          json_get r (ascii ''status'') = Some (JStr (ascii ''error''))) added"
           "s' = s1 + int (length (filter (\<lambda>r. json_get r (ascii ''status'')
                                             = Some (JStr (ascii ''success''))) added))"
           "f' = f1 + int (length (filter (\<lambda>r. json_get r (ascii ''status'')
                                             = Some (JStr (ascii ''error''))) added))"
           "if 1 < b_len_recipients b then pause_count new2 = length added
            else pause_count new2 = 0"
        by blast
      have "results' = results @ (one # added)" using a(1) by simp
      moreover have "tr' = tr @ (new1 @ new2)" using a(2) n1(1) by simp
      moreover have "map (\<lambda>r. json_get r (ascii ''email'')) (one # added)
                     = map (\<lambda>e. Some (JStr e)) (to_emails (r # rs))"
        using a(3) False one_email by simp
      moreover have "list_all (\<lambda>r. json_get r (ascii ''status'') = Some (JStr (ascii ''success'')) \<or>
                          json_get r (ascii ''status'') = Some (JStr (ascii ''error''))) (one # added)"
        using a(4) one_status by (cases outcome) simp_all
      moreover have "s' = s + int (length (filter (\<lambda>r. json_get r (ascii ''status'')
                                             = Some (JStr (ascii ''success''))) (one # added)))"
        using a(5) counts(1) one_status(1) by simp
      moreover have "f' = f + int (length (filter (\<lambda>r. json_get r (ascii ''status'')
                                             = Some (JStr (ascii ''error''))) (one # added)))"
        using a(6) counts(2) one_status(2) by simp
      moreover have "if 1 < b_len_recipients b then pause_count (new1 @ new2) = length (one # added)
            else pause_count (new1 @ new2) = 0"
        using a(7) n1(2) by auto
      ultimately show ?thesis by blast
    qed
  qed
qed

lemma smtp_handshake_events:
  assumes "smtp_handshake env sender_email app_password tr = (outcome, tr')"
  shows "\<exists>new. tr' = tr @ new \<and>
           list_all (\<lambda>e. \<not> is_sendmail e \<and> \<not> is_pause e) new \<and>
           list_ex open_failure new = (outcome \<noteq> None)"
proof (cases "smtp_ehlo env tr")
  case (Some e)
  show ?thesis using assms by (auto simp: smtp_handshake_def Let_def Some)
next
  case ehlo: None
  show ?thesis
  proof (cases "smtp_starttls env (tr @ [SmtpEhlo None])")
    case (Some e)
    show ?thesis using assms by (auto simp: smtp_handshake_def Let_def ehlo Some)
  next
    case tls: None
    show ?thesis
    proof (cases "smtp_login env (tr @ [SmtpEhlo None, SmtpStarttls None]) sender_email app_password")
      case (Some e)
      show ?thesis using assms by (auto simp: smtp_handshake_def Let_def ehlo tls Some)
    next
      case None
      show ?thesis using assms by (auto simp: smtp_handshake_def Let_def ehlo tls None)
    qed
  qed
qed

lemma quiet_events:
  assumes "list_all (\<lambda>e. \<not> is_sendmail e \<and> \<not> is_pause e) xs"
  shows "pauses_follow_sends xs" "pause_count xs = 0" "\<not> list_ex is_sendmail xs"
  using assms by (induction xs) auto

lemma loop_events_open:
  assumes "list_all (\<lambda>e. is_sendmail e \<or> is_pause e) xs"
  shows "\<not> list_ex open_failure xs"
  using assms
proof (induction xs)
  case Nil
  show ?case by simp
next
  case (Cons e xs)
  then show ?case by (cases e) auto
qed

subsection \<open>The batch view\<close>

lemma batch_session_run:
  assumes "batch_session env app_password b rs tr = (out, tr')"
  shows "\<exists>new. tr' = tr @ new \<and>
           (if 1 < b_len_recipients b then pauses_follow_sends new else pause_count new = 0) \<and>
           (list_ex open_failure new \<longrightarrow> isl out \<and> \<not> list_ex is_sendmail new) \<and>
           (\<forall>resp. out = Inr resp \<longrightarrow>
              (\<exists>results s f. resp = (batch_body results s f (length rs), 200) \<and>
                 results_for rs results s f \<and>
                 (1 < b_len_recipients b \<longrightarrow> pause_count new = length results)))"
proof -
  obtain ho tr1 where hs: "smtp_handshake env (b_sender_email b) app_password tr = (ho, tr1)"
    by (cases "smtp_handshake env (b_sender_email b) app_password tr")
  from smtp_handshake_events [OF hs] obtain new1 where
    n1: "tr1 = tr @ new1" "list_all (\<lambda>e. \<not> is_sendmail e \<and> \<not> is_pause e) new1"
        "list_ex open_failure new1 = (ho \<noteq> None)"
    by blast
  note q1 = quiet_events [OF n1(2)]
  show ?thesis
  proof (cases ho)
    case (Some e)
    with assms hs have "out = Inl e" "tr' = tr1" by (simp_all add: batch_session_def)
    then show ?thesis using n1 q1 by auto
  next
    case None
    obtain res tr2 where lp: "send_loop env b rs ([], 0, 0) tr1 = (res, tr2)"
      by (cases "send_loop env b rs ([], 0, 0) tr1")
    from send_loop_transcript [OF lp] obtain new2 where
      n2: "tr2 = tr1 @ new2" "list_all (\<lambda>e. is_sendmail e \<or> is_pause e) new2"
          "if 1 < b_len_recipients b then pauses_follow_sends new2 else pause_count new2 = 0"
      by blast
    have tr2: "tr2 = tr @ (new1 @ new2)" using n1(1) n2(1) by simp
    have nof: "\<not> list_ex open_failure (new1 @ new2)"
      using n1(3) None loop_events_open [OF n2(2)] by simp
    have pz: "if 1 < b_len_recipients b then pauses_follow_sends (new1 @ new2)
              else pause_count (new1 @ new2) = 0"
      using q1 n2(3) by (auto intro: pauses_follow_sends_append)
    show ?thesis
    proof (cases res)
      case (Inl e)
      with assms hs None lp have "out = Inl e" "tr' = tr2" by (simp_all add: batch_session_def)
      then show ?thesis using tr2 nof pz by blast
    next
      case (Inr acc)
      obtain results s f where acc: "acc = (results, s, f)" by (cases acc)
      from assms hs None lp Inr acc have
        o: "out = Inr (batch_body results s f (length rs), 200)" "tr' = tr2"
        by (simp_all add: batch_session_def)
      from send_loop_results [OF lp [unfolded Inr acc]] obtain added new where
        r: "results = [] @ added" "tr2 = tr1 @ new"
           "map (\<lambda>r. json_get r (ascii ''email'')) added = map (\<lambda>e. Some (JStr e)) (to_emails rs)"
           "list_all (\<lambda>r. json_get r (ascii ''status'') = Some (JStr (ascii ''success'')) \<or>
                          json_get r (ascii ''status'') = Some (JStr (ascii ''error''))) added"
           "s = 0 + int (length (filter (\<lambda>r. json_get r (ascii ''status'')
                                             = Some (JStr (ascii ''success''))) added))"
           "f = 0 + int (length (filter (\<lambda>r. json_get r (ascii ''status'')
                                             = Some (JStr (ascii ''error''))) added))"
           "if 1 < b_len_recipients b then pause_count new = length added
            else pause_count new = 0"
        by blast
      have "new = new2" using r(2) n2(1) by simp
      then have pc: "1 < b_len_recipients b \<longrightarrow> pause_count (new1 @ new2) = length results"
        using r(1) r(7) q1(2) by (auto split: if_splits)
      have rf: "results_for rs results s f"
        using r(1,3,4,5,6) by (simp add: results_for_def)
      show ?thesis using o tr2 nof pz pc rf by blast
    qed
  qed
qed

lemma with_SMTP_batch_run:
  assumes "with_SMTP env (batch_session env app_password b rs) tr = (out, tr')"
  shows "\<exists>new. tr' = tr @ new \<and>
           (if 1 < b_len_recipients b then pauses_follow_sends new else pause_count new = 0) \<and>
           (list_ex open_failure new \<longrightarrow> isl out \<and> \<not> list_ex is_sendmail new) \<and>
           (\<forall>resp. out = Inr resp \<longrightarrow>
              (\<exists>results s f. resp = (batch_body results s f (length rs), 200) \<and>
                 results_for rs results s f \<and>
                 (1 < b_len_recipients b \<longrightarrow> pause_count new = length results)))"
proof (cases "smtp_connect env tr SMTP_SERVER SMTP_PORT")
  case (Some e)
  with assms have "out = Inl e" "tr' = tr @ [SmtpConnect SMTP_SERVER SMTP_PORT (Some e)]"
    by (simp_all add: with_SMTP_def)
  then show ?thesis by simp
next
  case None
  let ?c = "SmtpConnect SMTP_SERVER SMTP_PORT None"
  obtain o1 tr1 where bs: "batch_session env app_password b rs (tr @ [?c]) = (o1, tr1)"
    by (cases "batch_session env app_password b rs (tr @ [?c])")
  from batch_session_run [OF bs] obtain new1 where
    n1: "tr1 = (tr @ [?c]) @ new1"
        "if 1 < b_len_recipients b then pauses_follow_sends new1 else pause_count new1 = 0"
        "list_ex open_failure new1 \<longrightarrow> isl o1 \<and> \<not> list_ex is_sendmail new1"
        "\<forall>resp. o1 = Inr resp \<longrightarrow>
              (\<exists>results s f. resp = (batch_body results s f (length rs), 200) \<and>
                 results_for rs results s f \<and>
                 (1 < b_len_recipients b \<longrightarrow> pause_count new1 = length results))"
    by blast
  define x where "x = smtp_exit env tr1"
  have out: "out = (case x of Some e \<Rightarrow> Inl e | None \<Rightarrow> o1)" and
       tr': "tr' = tr @ ([?c] @ new1 @ [SmtpExit x])"
    using assms None bs n1(1) by (auto simp: with_SMTP_def x_def split: option.splits)
  have p: "if 1 < b_len_recipients b then pauses_follow_sends ([?c] @ new1 @ [SmtpExit x])
           else pause_count ([?c] @ new1 @ [SmtpExit x]) = 0"
    using n1(2) by (auto intro!: pauses_follow_sends_append)
  have pc: "pause_count ([?c] @ new1 @ [SmtpExit x]) = pause_count new1" by simp
  have opf: "list_ex open_failure ([?c] @ new1 @ [SmtpExit x]) = list_ex open_failure new1"
    by simp
  have sm: "list_ex is_sendmail ([?c] @ new1 @ [SmtpExit x]) = list_ex is_sendmail new1"
    by simp
  have isl: "isl o1 \<Longrightarrow> isl out" using out by (cases x) simp_all
  have inr: "\<And>resp. out = Inr resp \<Longrightarrow> o1 = Inr resp" using out by (cases x) simp_all
  show ?thesis
    using tr' p n1(3) n1(4) isl inr unfolding pc [symmetric] opf [symmetric] sm [symmetric]
    by blast
qed

lemma send_emails_cases:
  assumes "send_emails env data tr = (resp, tr')"
  shows "(\<exists>m. resp = (error_body m, 400) \<and> tr' = tr) \<or>
         (\<exists>m pre. resp = (error_body m, 500) \<and> tr' = tr @ pre \<and>
            list_all (\<lambda>e. \<not> is_relay_call e \<and> \<not> is_pause e) pre) \<or>
         (\<exists>pre pw b out.
            list_all (\<lambda>e. \<not> is_relay_call e \<and> \<not> is_pause e) pre \<and>
            b_len_recipients b = length (get_default (req_recipients data) []) \<and>
            with_SMTP env (batch_session env pw b (get_default (req_recipients data) [])) (tr @ pre)
              = (out, tr') \<and>
            (case out of Inr r \<Rightarrow> resp = r | Inl e \<Rightarrow> \<exists>m. resp = (error_body m, 500)))"
proof -
  let ?rs = "get_default (req_recipients data) []"
  show ?thesis
  proof (cases "\<exists>m. resp = (error_body m, 400) \<and> tr' = tr")
    case True
    then show ?thesis by blast
  next
    case False
    from assms False obtain pdf_data where
      valid: "?rs \<noteq> []" "strip (get_default (req_sender_email data) []) \<noteq> []"
        "strip (get_default (req_app_password data) []) \<noteq> []"
        "strip (get_default (req_job_title data) []) \<noteq> []"
        "strip (get_default (req_subject data) []) \<noteq> []"
        "get_default (req_pdf_file data) [] \<noteq> []"
        "strip (get_default (req_name data) []) \<noteq> []"
        "strip (get_default (req_phone_number data) []) \<noteq> []" and
      pdf: "b64decode (get_default (req_pdf_file data) []) = Inr pdf_data"
      unfolding send_emails_def Let_def
      by (auto split: if_splits sum.splits)
    show ?thesis
    proof (cases "path_exists env tr TEMPLATE_PATH")
      case no: False
      from assms valid pdf no have
        "resp = (error_body (ascii ''Configuration error: ''
                   @ str_exn (FileNotFoundError (ascii ''Email template not found: '' @ TEMPLATE_PATH))), 500)"
        "tr' = tr @ [PathExists TEMPLATE_PATH False]"
        unfolding send_emails_def Let_def validate_configuration_def by simp_all
      then show ?thesis by auto
    next
      case yes: True
      let ?t1 = "tr @ [PathExists TEMPLATE_PATH True]"
      have vc: "validate_configuration env False tr = (None, ?t1)"
        using yes by (simp add: validate_configuration_def)
      show ?thesis
      proof (cases "path_exists env ?t1 TEMPLATE_PATH")
        case False
        then have "load_email_template env TEMPLATE_PATH ?t1 =
           (Inl (FileNotFoundError (ascii ''Email template not found: '' @ TEMPLATE_PATH)),
            ?t1 @ [PathExists TEMPLATE_PATH False])"
          by (simp add: load_email_template_def)
        with assms valid pdf vc have
          "resp = (error_body (ascii ''Template loading error: ''
                   @ str_exn (FileNotFoundError (ascii ''Email template not found: '' @ TEMPLATE_PATH))), 500)"
          "tr' = tr @ [PathExists TEMPLATE_PATH True, PathExists TEMPLATE_PATH False]"
          unfolding send_emails_def Let_def by simp_all
        then show ?thesis by auto
      next
        case True
        let ?t2 = "?t1 @ [PathExists TEMPLATE_PATH True]"
        let ?content = "read_text env ?t2 TEMPLATE_PATH"
        let ?pre = "[PathExists TEMPLATE_PATH True, PathExists TEMPLATE_PATH True,
                     ReadText TEMPLATE_PATH ?content]"
        have lt: "load_email_template env TEMPLATE_PATH ?t1 = (?content, tr @ ?pre)"
          using True by (simp add: load_email_template_def Let_def)
        show ?thesis
        proof (cases ?content)
          case (Inl e)
          with assms valid pdf vc lt have
            "resp = (error_body (ascii ''Template loading error: '' @ str_exn e), 500)"
            "tr' = tr @ ?pre"
            unfolding send_emails_def Let_def by simp_all
          then show ?thesis by auto
        next
          case (Inr email_template)
          let ?b = "\<lparr>b_email_template = email_template,
             b_sender_email = strip (get_default (req_sender_email data) []),
             b_job_title = strip (get_default (req_job_title data) []),
             b_subject = strip (get_default (req_subject data) []),
             b_name = strip (get_default (req_name data) []),
             b_phone_number = strip (get_default (req_phone_number data) []),
             b_pdf_data = pdf_data,
             b_pdf_filename = get_default (req_pdf_filename data) (ascii ''CV.pdf''),
             b_len_recipients = length ?rs\<rparr>"
          let ?pw = "strip (get_default (req_app_password data) [])"
          obtain out tr3 where
            w: "with_SMTP env (batch_session env ?pw ?b ?rs) (tr @ ?pre) = (out, tr3)"
            by (cases "with_SMTP env (batch_session env ?pw ?b ?rs) (tr @ ?pre)")
          from assms valid pdf vc lt Inr w have
            r: "tr' = tr3"
               "case out of Inr r \<Rightarrow> resp = r | Inl e \<Rightarrow> \<exists>m. resp = (error_body m, 500)"
            unfolding send_emails_def Let_def
            by (auto split: sum.splits if_splits)
          have "b_len_recipients ?b = length ?rs" by simp
          moreover have "list_all (\<lambda>e. \<not> is_relay_call e \<and> \<not> is_pause e) ?pre" by simp
          ultimately show ?thesis using w r by blast
        qed
      qed
    qed
  qed
qed

lemma file_events:
  assumes "list_all (\<lambda>e. \<not> is_relay_call e \<and> \<not> is_pause e) xs"
  shows "list_all (\<lambda>e. \<not> is_sendmail e \<and> \<not> is_pause e) xs" "\<not> list_ex open_failure xs"
  using assms
proof (induction xs)
  case Nil
  case 1 show ?case by simp
  case 2 show ?case by simp
next
  case (Cons e xs)
  case 1 with Cons show ?case by (cases e) auto
  case 2 with Cons show ?case by (cases e) auto
qed

lemma send_emails_run:
  assumes "send_emails env data tr = (resp, tr')"
  shows "\<exists>new. tr' = tr @ new \<and>
           (if 1 < length (get_default (req_recipients data) [])
            then pauses_follow_sends new else pause_count new = 0) \<and>
           (list_ex open_failure new \<longrightarrow>
              (\<exists>m. resp = (error_body m, 500)) \<and> \<not> list_ex is_sendmail new) \<and>
           (snd resp = 200 \<longrightarrow>
              (\<exists>results s f.
                 resp = (batch_body results s f (length (get_default (req_recipients data) [])), 200) \<and>
                 results_for (get_default (req_recipients data) []) results s f \<and>
                 (1 < length (get_default (req_recipients data) []) \<longrightarrow>
                    pause_count new = length results)))"
proof -
  let ?rs = "get_default (req_recipients data) []"
  from send_emails_cases [OF assms] consider
    (invalid) m where "resp = (error_body m, 400)" "tr' = tr"
  | (config) m pre where "resp = (error_body m, 500)" "tr' = tr @ pre"
      "list_all (\<lambda>e. \<not> is_relay_call e \<and> \<not> is_pause e) pre"
  | (session) pre pw b out where
      "list_all (\<lambda>e. \<not> is_relay_call e \<and> \<not> is_pause e) pre"
      "b_len_recipients b = length ?rs"
      "with_SMTP env (batch_session env pw b ?rs) (tr @ pre) = (out, tr')"
      "case out of Inr r \<Rightarrow> resp = r | Inl e \<Rightarrow> \<exists>m. resp = (error_body m, 500)"
    by blast
  then show ?thesis
  proof cases
    case invalid
    then show ?thesis by simp
  next
    case config
    note q = quiet_events [OF file_events(1) [OF config(3)]] file_events(2) [OF config(3)]
    show ?thesis using config(1,2) q by auto
  next
    case session
    note q = quiet_events [OF file_events(1) [OF session(1)]] file_events(2) [OF session(1)]
    from with_SMTP_batch_run [OF session(3)] obtain new1 where
      n: "tr' = (tr @ pre) @ new1"
         "if 1 < b_len_recipients b then pauses_follow_sends new1 else pause_count new1 = 0"
         "list_ex open_failure new1 \<longrightarrow> isl out \<and> \<not> list_ex is_sendmail new1"
         "\<forall>resp. out = Inr resp \<longrightarrow>
              (\<exists>results s f. resp = (batch_body results s f (length ?rs), 200) \<and>
                 results_for ?rs results s f \<and>
                 (1 < b_len_recipients b \<longrightarrow> pause_count new1 = length results))"
      by blast
    have t: "tr' = tr @ (pre @ new1)" using n(1) by simp
    have p: "if 1 < length ?rs then pauses_follow_sends (pre @ new1)
             else pause_count (pre @ new1) = 0"
      using n(2) q(1,2) session(2) by (auto intro: pauses_follow_sends_append)
    have o: "list_ex open_failure (pre @ new1) \<longrightarrow>
              (\<exists>m. resp = (error_body m, 500)) \<and> \<not> list_ex is_sendmail (pre @ new1)"
      using n(3) q(3,4) session(4) by (cases out) auto
    have r: "snd resp = 200 \<longrightarrow>
              (\<exists>results s f. resp = (batch_body results s f (length ?rs), 200) \<and>
                 results_for ?rs results s f \<and>
                 (1 < length ?rs \<longrightarrow> pause_count (pre @ new1) = length results))"
    proof (cases out)
      case (Inl e)
      with session(4) show ?thesis by auto
    next
      case (Inr r)
      with session(4) have "resp = r" by simp
      with n(4) Inr q(2) session(2) show ?thesis by auto
    qed
    show ?thesis using t p o r by blast
  qed
qed


subsection \<open>Results, relay failures and pauses of the batch view\<close>

lemma str_nat_digit: "n < 10 \<Longrightarrow> str_nat n = [48 + n]"
  by (subst str_nat.simps) simp

lemma sample_pdf: "b64decode (ascii ''QUJD'') = Inr [65, 66, 67]"
  by (simp add: b64decode_def a2b_base64_def table_a2b_base64_def)

lemmas sample_run =
  send_emails_def sample_request_def sample_world_def Let_def strip_def isspace_def
  sample_pdf [simplified] validate_configuration_def load_email_template_def with_SMTP_def
  batch_session_def smtp_handshake_def send_one_def build_message_data delay_between_def
  always_ok_def second_refused_def get_str_def create_greeting_def


lemma error_body_items:
  "json_get (error_body m) (ascii ''results'') = None"
  "json_get (error_body m) (ascii ''success'') = None"
  "json_get (error_body m) (ascii ''message'') = None"
  "json_get (error_body m) (ascii ''error'') = Some (JStr m)"
  by (simp_all add: error_body_def)


text \<open>
  C3.  If a call that opens the relay session fails (the connection, the greeting, the
  upgrade to an encrypted channel or the authentication), the batch view answers with
  a single error body of status 500, which has no \<open>results\<close> item, and nothing is
  submitted to the relay.
\<close>

theorem relay_open_failure_aborts_batch:
  assumes "send_emails env data tr = (resp, tr @ new)"
    and "list_ex open_failure new"
  shows "(\<exists>m. resp = (error_body m, 500)) \<and>
         json_get (fst resp) (ascii ''results'') = None \<and>
         \<not> list_ex is_sendmail new"
proof -
  from send_emails_run [OF assms(1)] obtain new' where
    n: "tr @ new = tr @ new'"
       "list_ex open_failure new' \<longrightarrow>
          (\<exists>m. resp = (error_body m, 500)) \<and> \<not> list_ex is_sendmail new'"
    by blast
  from n(1) have "new' = new" by simp
  with n(2) assms(2) obtain m where m: "resp = (error_body m, 500)" and
    ns: "\<not> list_ex is_sendmail new"
    by blast
  show ?thesis using m ns error_body_items(1) [of m] by auto
qed

text \<open>
  C4.  The pause is \<open>SEND_DELAY = 1\<close>.  In a batch whose input list has more than one
  entry, every submission to the relay is immediately followed by the pause, the last
  one included, and when the batch runs to its end there are as many pauses as
  recipients sent to.  In a batch whose input list has exactly one entry there is no
  pause.
\<close>

theorem pause_after_every_send:
  assumes "send_emails env data tr = (resp, tr')"
  shows "\<exists>new. tr' = tr @ new \<and> SEND_DELAY = 1 \<and>
           (1 < length (get_default (req_recipients data) []) \<longrightarrow>
              pauses_follow_sends new \<and>
              (snd resp = 200 \<longrightarrow>
                 pause_count new = length (to_emails (get_default (req_recipients data) [])))) \<and>
           (length (get_default (req_recipients data) []) = 1 \<longrightarrow> pause_count new = 0)"
proof -
  let ?rs = "get_default (req_recipients data) []"
  from send_emails_run [OF assms] obtain new where
    n: "tr' = tr @ new"
       "if 1 < length ?rs then pauses_follow_sends new else pause_count new = 0"
       "snd resp = 200 \<longrightarrow>
              (\<exists>results s f. resp = (batch_body results s f (length ?rs), 200) \<and>
                 results_for ?rs results s f \<and>
                 (1 < length ?rs \<longrightarrow> pause_count new = length results))"
    by blast
  have c: "pause_count new = length (to_emails ?rs)"
    if a: "1 < length ?rs" "snd resp = 200"
  proof -
    from n(3) a obtain results s f where
      rf: "results_for ?rs results s f" and pc: "pause_count new = length results" by blast
    from rf have "map (\<lambda>r. json_get r (ascii ''email'')) results
                  = map (\<lambda>e. Some (JStr e)) (to_emails ?rs)"
      by (simp add: results_for_def)
    then have "length results = length (to_emails ?rs)"
      using length_map [of "\<lambda>r. json_get r (ascii ''email'')" results]
            length_map [of "\<lambda>e. Some (JStr e)" "to_emails ?rs"] by simp
    with pc show ?thesis by simp
  qed
  have d: "SEND_DELAY = 1" by (simp add: SEND_DELAY_def)
  have p: "1 < length ?rs \<longrightarrow> pauses_follow_sends new" using n(2) by simp
  have z: "length ?rs = 1 \<longrightarrow> pause_count new = 0" using n(2) by simp
  show ?thesis using n(1) c d p z by blast
qed

lemma sample_batch_answer:
  "fst (send_emails (sample_world always_ok second_refused)
     (sample_request [[ascii ''email'' \<mapsto> ascii ''a@y''], [ascii ''email'' \<mapsto> ascii '' ''],
                      [ascii ''email'' \<mapsto> ascii ''b@y''], [ascii ''email'' \<mapsto> ascii ''c@y'']]) [])
   = (batch_body [success_result (ascii ''a@y''), error_result (ascii ''b@y'') (ascii ''550''),
                  success_result (ascii ''c@y'')] 2 1 4, 200)"
  by (simp add: sample_run batch_body_def)

lemma sample_login_refused:
  "send_emails (sample_world login_refused always_ok)
     (sample_request [[ascii ''email'' \<mapsto> ascii ''a@y''], [ascii ''email'' \<mapsto> ascii ''b@y'']]) []
   = ((error_body (ascii ''SMTP error: 535''), 500),
      [PathExists TEMPLATE_PATH True, PathExists TEMPLATE_PATH True,
       ReadText TEMPLATE_PATH (Inr (ascii ''Hello'')),
       SmtpConnect SMTP_SERVER SMTP_PORT None, SmtpEhlo None, SmtpStarttls None,
       SmtpLogin (ascii ''me@x.org'') (ascii ''pw'') (Some (SMTPException (ascii ''535''))),
       SmtpExit None])"
  by (simp add: sample_run login_refused_def)


theorem relay_open_failure_aborts_batch_witness:
  "send_emails (sample_world login_refused always_ok)
     (sample_request [[ascii ''email'' \<mapsto> ascii ''a@y''], [ascii ''email'' \<mapsto> ascii ''b@y'']]) []
   = ((error_body (ascii ''SMTP error: 535''), 500),
      [] @ [PathExists TEMPLATE_PATH True, PathExists TEMPLATE_PATH True,
       ReadText TEMPLATE_PATH (Inr (ascii ''Hello'')),
       SmtpConnect SMTP_SERVER SMTP_PORT None, SmtpEhlo None, SmtpStarttls None,
       SmtpLogin (ascii ''me@x.org'') (ascii ''pw'') (Some (SMTPException (ascii ''535''))),
       SmtpExit None]) \<and>
   list_ex open_failure
     [PathExists TEMPLATE_PATH True, PathExists TEMPLATE_PATH True,
       ReadText TEMPLATE_PATH (Inr (ascii ''Hello'')),
       SmtpConnect SMTP_SERVER SMTP_PORT None, SmtpEhlo None, SmtpStarttls None,
       SmtpLogin (ascii ''me@x.org'') (ascii ''pw'') (Some (SMTPException (ascii ''535''))),
       SmtpExit None] \<and>
   json_get (error_body (ascii ''SMTP error: 535'')) (ascii ''results'') = None"
proof -
  let ?new = "[PathExists TEMPLATE_PATH True, PathExists TEMPLATE_PATH True,
       ReadText TEMPLATE_PATH (Inr (ascii ''Hello'')),
       SmtpConnect SMTP_SERVER SMTP_PORT None, SmtpEhlo None, SmtpStarttls None,
       SmtpLogin (ascii ''me@x.org'') (ascii ''pw'') (Some (SMTPException (ascii ''535''))),
       SmtpExit None]"
  have run: "send_emails (sample_world login_refused always_ok)
     (sample_request [[ascii ''email'' \<mapsto> ascii ''a@y''], [ascii ''email'' \<mapsto> ascii ''b@y'']]) []
     = ((error_body (ascii ''SMTP error: 535''), 500), [] @ ?new)"
    using sample_login_refused by simp
  have failed: "list_ex open_failure ?new" by simp
  show ?thesis
    using relay_open_failure_aborts_batch [OF run failed] run failed by simp
qed

theorem pause_after_every_send_witness:
  "pauses_follow_sends (snd (send_emails (sample_world always_ok second_refused)
     (sample_request [[ascii ''email'' \<mapsto> ascii ''a@y''], [ascii ''email'' \<mapsto> ascii '' ''],
                      [ascii ''email'' \<mapsto> ascii ''b@y''], [ascii ''email'' \<mapsto> ascii ''c@y'']]) [])) \<and>
   pause_count (snd (send_emails (sample_world always_ok second_refused)
     (sample_request [[ascii ''email'' \<mapsto> ascii ''a@y''], [ascii ''email'' \<mapsto> ascii '' ''],
                      [ascii ''email'' \<mapsto> ascii ''b@y''], [ascii ''email'' \<mapsto> ascii ''c@y'']]) [])) = 3 \<and>
   pause_count (snd (send_emails (sample_world always_ok always_ok)
     (sample_request [[ascii ''email'' \<mapsto> ascii ''a@y'']]) [])) = 0"
proof -
  let ?X = "send_emails (sample_world always_ok second_refused)
     (sample_request [[ascii ''email'' \<mapsto> ascii ''a@y''], [ascii ''email'' \<mapsto> ascii '' ''],
                      [ascii ''email'' \<mapsto> ascii ''b@y''], [ascii ''email'' \<mapsto> ascii ''c@y'']]) []"
  let ?Y = "send_emails (sample_world always_ok always_ok)
     (sample_request [[ascii ''email'' \<mapsto> ascii ''a@y'']]) []"
  have x: "?X = (fst ?X, snd ?X)" and y: "?Y = (fst ?Y, snd ?Y)" by simp_all
  have st: "snd (fst ?X) = 200" using sample_batch_answer by simp
  have n: "length (get_default (req_recipients (sample_request
             [[ascii ''email'' \<mapsto> ascii ''a@y''], [ascii ''email'' \<mapsto> ascii '' ''],
              [ascii ''email'' \<mapsto> ascii ''b@y''], [ascii ''email'' \<mapsto> ascii ''c@y'']])) []) = 4"
          "length (get_default (req_recipients (sample_request
             [[ascii ''email'' \<mapsto> ascii ''a@y'']])) []) = 1"
    by (simp_all add: sample_request_def)
  have e: "length (to_emails (get_default (req_recipients (sample_request
             [[ascii ''email'' \<mapsto> ascii ''a@y''], [ascii ''email'' \<mapsto> ascii '' ''],
              [ascii ''email'' \<mapsto> ascii ''b@y''], [ascii ''email'' \<mapsto> ascii ''c@y'']])) [])) = 3"
    by (simp add: sample_request_def get_str_def strip_def isspace_def)
  from pause_after_every_send [OF x] st n(1) e
  have "pauses_follow_sends (snd ?X) \<and> pause_count (snd ?X) = 3" by auto
  moreover from pause_after_every_send [OF y] n(2)
  have "pause_count (snd ?Y) = 0" by auto
  ultimately show ?thesis by simp
qed

subsection \<open>Failure of one recipient\<close>




subsection \<open>Validation of the required fields\<close>

lemma blank_iff: "blank v \<longleftrightarrow> strip (get_default v []) = []"
  by (simp add: blank_def strip_empty_iff)

lemma send_emails_rejects:
  assumes "get_default (req_recipients data) [] = [] \<or> blank (req_sender_email data) \<or>
           blank (req_app_password data) \<or> blank (req_job_title data) \<or>
           blank (req_subject data) \<or> get_default (req_pdf_file data) [] = [] \<or>
           blank (req_name data) \<or> blank (req_phone_number data)"
  shows "\<exists>m. send_emails env data tr = ((error_body m, 400), tr)"
  using assms unfolding blank_iff
  by (elim disjE; simp add: send_emails_def Let_def error_body_def)

lemma send_single_email_rejects:
  assumes "list_all isspace (get_str (get_default (req_recipient data) Map.empty) (ascii ''email'')) \<or>
           blank (req_sender_email data) \<or>
           blank (req_app_password data) \<or> blank (req_job_title data) \<or>
           blank (req_subject data) \<or> get_default (req_pdf_file data) [] = [] \<or>
           blank (req_name data) \<or> blank (req_phone_number data)"
  shows "\<exists>m. send_single_email env data tr = ((failure_body m, 400), tr)"
  using assms unfolding blank_iff strip_empty_iff [symmetric]
  by (elim disjE; simp add: send_single_email_def Let_def failure_body_def)

lemma test_email_rejects:
  assumes "blank (req_email data) \<or> blank (req_sender_email data) \<or>
           blank (req_app_password data) \<or> blank (req_job_title data) \<or>
           blank (req_subject data) \<or> get_default (req_pdf_file data) [] = []"
  shows "\<exists>m. test_email env data tr = ((error_body m, 400), tr)"
  using assms unfolding blank_iff
  by (elim disjE; simp add: test_email_def Let_def error_body_def)

text \<open>
  C7 (amended).  A request is refused with a validation error of status 400, and
  nothing outside the program is touched (the transcript is unchanged, so no relay
  call is made), when a required field is missing or blank: for the batch view the
  recipient list (missing or empty), for the single view the address of the recipient,
  for the test view the address; for all three the sender address, the password, the
  job title, the subject and the attachment payload (missing or empty); and for the
  batch and the single view also the name and the phone number.  The batch view does
  not check the address of each recipient.
\<close>

theorem missing_field_is_rejected:
  "(get_default (req_recipients data) [] = [] \<or> blank (req_sender_email data) \<or>
    blank (req_app_password data) \<or> blank (req_job_title data) \<or>
    blank (req_subject data) \<or> get_default (req_pdf_file data) [] = [] \<or>
    blank (req_name data) \<or> blank (req_phone_number data)
    \<longrightarrow> (\<exists>m. send_emails env data tr = ((error_body m, 400), tr)))
   \<and>
   (list_all isspace (get_str (get_default (req_recipient data) Map.empty) (ascii ''email'')) \<or>
    blank (req_sender_email data) \<or>
    blank (req_app_password data) \<or> blank (req_job_title data) \<or>
    blank (req_subject data) \<or> get_default (req_pdf_file data) [] = [] \<or>
    blank (req_name data) \<or> blank (req_phone_number data)
    \<longrightarrow> (\<exists>m. send_single_email env data tr = ((failure_body m, 400), tr)))
   \<and>
   (blank (req_email data) \<or> blank (req_sender_email data) \<or>
    blank (req_app_password data) \<or> blank (req_job_title data) \<or>
    blank (req_subject data) \<or> get_default (req_pdf_file data) [] = []
    \<longrightarrow> (\<exists>m. test_email env data tr = ((error_body m, 400), tr)))"
  using send_emails_rejects [of data env tr] send_single_email_rejects [of data env tr]
        test_email_rejects [of data env tr]
  by blast

theorem missing_field_is_rejected_witness:
  "blank (req_subject ((sample_request [[ascii ''email'' \<mapsto> ascii ''a@y'']])
                         \<lparr>req_subject := Some (ascii '' '')\<rparr>)) \<and>
   send_emails (sample_world always_ok always_ok)
     ((sample_request [[ascii ''email'' \<mapsto> ascii ''a@y'']])\<lparr>req_subject := Some (ascii '' '')\<rparr>) []
     = ((error_body (ascii ''Subject is required''), 400), []) \<and>
   send_single_email (sample_world always_ok always_ok)
     ((sample_request [[ascii ''email'' \<mapsto> ascii ''a@y'']])\<lparr>req_subject := Some (ascii '' '')\<rparr>) []
     = ((failure_body (ascii ''Subject is required''), 400), []) \<and>
   test_email (sample_world always_ok always_ok)
     ((sample_request [[ascii ''email'' \<mapsto> ascii ''a@y'']])\<lparr>req_subject := Some (ascii '' '')\<rparr>) []
     = ((error_body (ascii ''Subject is required''), 400), [])"
proof -
  let ?d = "(sample_request [[ascii ''email'' \<mapsto> ascii ''a@y'']])\<lparr>req_subject := Some (ascii '' '')\<rparr>"
  have b: "blank (req_subject ?d)" by (simp add: blank_def isspace_def)
  show ?thesis
    using missing_field_is_rejected [of ?d "sample_world always_ok always_ok" "[]"] b
    by (simp add: send_emails_def send_single_email_def test_email_def sample_request_def
        Let_def strip_def isspace_def get_str_def error_body_def failure_body_def)
qed

text \<open>
  C7 as stated fails for the batch view when the recipient address is the missing
  field: a batch whose only recipient has an empty address passes the validation, the
  relay session is opened, and the answer is a success with no results.
\<close>

theorem blank_recipient_email_counterexample:
  "send_emails (sample_world always_ok always_ok)
     (sample_request [[ascii ''email'' \<mapsto> []]]) []
   = ((batch_body [] 0 0 1, 200),
      [PathExists TEMPLATE_PATH True, PathExists TEMPLATE_PATH True,
       ReadText TEMPLATE_PATH (Inr (ascii ''Hello'')),
       SmtpConnect SMTP_SERVER SMTP_PORT None, SmtpEhlo None, SmtpStarttls None,
       SmtpLogin (ascii ''me@x.org'') (ascii ''pw'') None,
       SmtpExit None])"
  by (simp add: sample_run batch_body_def)

subsection \<open>The test view\<close>

lemma single_session_out:
  assumes "single_session env sender_email app_password to_email subject body pdf_data
             pdf_filename success_message tr = (out, tr')"
  shows "isl out \<or>
         out = Inr (JDict [(ascii ''success'', JBool True),
                           (ascii ''message'', JStr success_message)], 200)"
  using assms
  by (auto simp: single_session_def split: prod.splits option.splits)

lemma with_SMTP_out:
  assumes "with_SMTP env body tr = (out, tr')"
  shows "isl out \<or> (\<exists>tr1. body (tr @ [SmtpConnect SMTP_SERVER SMTP_PORT None]) = (out, tr1))"
  using assms
  by (auto simp: with_SMTP_def split: prod.splits option.splits)

lemma test_email_shape:
  assumes "test_email env data tr = ((body, status), tr')"
  shows "(status = 200 \<and> (\<exists>m. body = JDict [(ascii ''success'', JBool True),
                                               (ascii ''message'', JStr m)])) \<or>
         ((status = 400 \<or> status = 500) \<and> (\<exists>m. body = error_body m))"
proof -
  let ?email = "strip (get_default (req_email data) [])"
  let ?sender = "strip (get_default (req_sender_email data) [])"
  let ?pw = "strip (get_default (req_app_password data) [])"
  let ?job = "strip (get_default (req_job_title data) [])"
  let ?subject = "strip (get_default (req_subject data) [])"
  let ?pdf = "get_default (req_pdf_file data) []"
  show ?thesis
  proof (cases "?email = [] \<or> ?sender = [] \<or> ?pw = [] \<or> ?job = [] \<or> ?subject = [] \<or> ?pdf = []")
    case True
    then have "blank (req_email data) \<or> blank (req_sender_email data) \<or>
           blank (req_app_password data) \<or> blank (req_job_title data) \<or>
           blank (req_subject data) \<or> get_default (req_pdf_file data) [] = []"
      by (simp add: blank_iff)
    from test_email_rejects [OF this, of env tr] assms show ?thesis by auto
  next
    case valid: False
    show ?thesis
    proof (cases "b64decode ?pdf")
      case (Inl e)
      with assms valid show ?thesis by (auto simp: test_email_def Let_def)
    next
      case pdf: (Inr pdf_data)
      obtain vo tr1 where vc: "validate_configuration env False tr = (vo, tr1)"
        by (cases "validate_configuration env False tr")
      show ?thesis
      proof (cases vo)
        case (Some e)
        with assms valid pdf vc show ?thesis by (auto simp: test_email_def Let_def)
      next
        case None
        obtain lo tr2 where lt: "load_email_template env TEMPLATE_PATH tr1 = (lo, tr2)"
          by (cases "load_email_template env TEMPLATE_PATH tr1")
        show ?thesis
        proof (cases lo)
          case (Inl e)
          with assms valid pdf vc None lt show ?thesis by (auto simp: test_email_def Let_def)
        next
          case tpl: (Inr email_template)
          let ?r = "[ascii ''email'' \<mapsto> ?email,
                     ascii ''company'' \<mapsto> get_default (req_company data) []]"
          show ?thesis
          proof (cases "str_format env email_template
                          [(ascii ''greeting'', create_greeting ?r), (ascii ''job_title'', ?job)]")
            case (Inl e)
            with assms valid pdf vc None lt tpl show ?thesis
              by (auto simp: test_email_def Let_def)
          next
            case fmt: (Inr rendered)
            let ?ses = "single_session env ?sender ?pw ?email ?subject rendered pdf_data
                          (get_default (req_pdf_filename data) (ascii ''CV.pdf''))
                          (ascii ''Test email sent successfully to '' @ ?email)"
            obtain out tr3 where w: "with_SMTP env ?ses tr2 = (out, tr3)"
              by (cases "with_SMTP env ?ses tr2")
            have res: "((body, status), tr') =
                    (case out of Inr resp \<Rightarrow> (resp, tr3)
                     | Inl e \<Rightarrow> ((error_body (ascii ''Failed to send email: '' @ str_exn e), 500), tr3))"
              using assms valid pdf vc None lt tpl fmt w
              by (cases out) (simp_all add: test_email_def Let_def)
            show ?thesis
            proof (cases out)
              case (Inl e)
              with res show ?thesis by auto
            next
              case (Inr resp)
              with with_SMTP_out [OF w] obtain t t' where "?ses t = (Inr resp, t')"
                by auto
              from single_session_out [OF this] have
                "resp = (JDict [(ascii ''success'', JBool True),
                           (ascii ''message'',
                            JStr (ascii ''Test email sent successfully to '' @ ?email))], 200)"
                by simp
              with res Inr show ?thesis by auto
            qed
          qed
        qed
      qed
    qed
  qed
qed

lemma str_format_irrelevant:
  "validate_configuration (env\<lparr>str_format := fmt\<rparr>) = validate_configuration env"
  "load_email_template (env\<lparr>str_format := fmt\<rparr>) = load_email_template env"
  "build_message (env\<lparr>str_format := fmt\<rparr>) = build_message env"
  "smtp_handshake (env\<lparr>str_format := fmt\<rparr>) = smtp_handshake env"
  "with_SMTP (env\<lparr>str_format := fmt\<rparr>) = with_SMTP env"
  by (simp_all add: fun_eq_iff validate_configuration_def load_email_template_def
      build_message_def smtp_handshake_def with_SMTP_def Let_def
      cong: sum.case_cong option.case_cong prod.case_cong if_cong)

lemma str_format_irrelevant_send:
  "send_one (env\<lparr>str_format := fmt\<rparr>) = send_one env"
  "single_session (env\<lparr>str_format := fmt\<rparr>) = single_session env"
  by (simp_all add: fun_eq_iff send_one_def single_session_def str_format_irrelevant Let_def
      cong: sum.case_cong option.case_cong prod.case_cong if_cong)

lemma test_email_two_fields:
  assumes "\<And>template greeting job_title.
             fmt template [(ascii ''greeting'', greeting), (ascii ''job_title'', job_title)]
             = str_format env template
                 [(ascii ''greeting'', greeting), (ascii ''job_title'', job_title)]"
  shows "test_email (env\<lparr>str_format := fmt\<rparr>) data tr = test_email env data tr"
  unfolding test_email_def str_format_irrelevant str_format_irrelevant_send
  by (simp add: assms Let_def del: ascii_simps
      cong: sum.case_cong option.case_cong prod.case_cong if_cong)

text \<open>
  C8 (amended).  The test view never answers with a \<open>results\<close> item.  On success
  (status 200) the body is \<open>{success: true, message: ...}\<close>; on every failure path
  (status 400 or 500) the body is \<open>{error: ...}\<close> alone, without a success flag and
  without a message.  The view renders the template with the two fields \<open>greeting\<close> and
  \<open>job_title\<close> only: what it does is the same under any formatter that agrees with
  \<open>str.format\<close> on keyword lists of these two fields.
\<close>

theorem test_email_response:
  "(test_email env data tr = ((body, status), tr') \<longrightarrow>
      json_get body (ascii ''results'') = None \<and>
      ((status = 200 \<and>
        (\<exists>m. body = JDict [(ascii ''success'', JBool True), (ascii ''message'', JStr m)])) \<or>
       ((status = 400 \<or> status = 500) \<and>
        (\<exists>m. body = JDict [(ascii ''error'', JStr m)]))))
   \<and>
   ((\<forall>template greeting job_title.
       fmt template [(ascii ''greeting'', greeting), (ascii ''job_title'', job_title)]
       = str_format env template
           [(ascii ''greeting'', greeting), (ascii ''job_title'', job_title)]) \<longrightarrow>
    test_email (env\<lparr>str_format := fmt\<rparr>) data tr = test_email env data tr)"
proof (rule conjI; rule impI)
  assume run: "test_email env data tr = ((body, status), tr')"
  from test_email_shape [OF run] consider
    (ok) m where "status = 200" "body = JDict [(ascii ''success'', JBool True),
                                               (ascii ''message'', JStr m)]"
  | (err) m where "status = 400 \<or> status = 500" "body = error_body m"
    by blast
  then show "json_get body (ascii ''results'') = None \<and>
      ((status = 200 \<and>
        (\<exists>m. body = JDict [(ascii ''success'', JBool True), (ascii ''message'', JStr m)])) \<or>
       ((status = 400 \<or> status = 500) \<and>
        (\<exists>m. body = JDict [(ascii ''error'', JStr m)])))"
  proof cases
    case ok
    then show ?thesis by simp
  next
    case err
    then show ?thesis by (auto simp: error_body_def)
  qed
next
  assume "\<forall>template greeting job_title.
       fmt template [(ascii ''greeting'', greeting), (ascii ''job_title'', job_title)]
       = str_format env template
           [(ascii ''greeting'', greeting), (ascii ''job_title'', job_title)]"
  then show "test_email (env\<lparr>str_format := fmt\<rparr>) data tr = test_email env data tr"
    by (intro test_email_two_fields) blast
qed

lemmas sample_test_run =
  test_email_def sample_request_def sample_world_def Let_def strip_def isspace_def
  sample_pdf [simplified] validate_configuration_def load_email_template_def with_SMTP_def
  single_session_def smtp_handshake_def send_one_def build_message_data
  always_ok_def login_refused_def get_str_def create_greeting_def

theorem test_email_response_witness:
  "test_email (sample_world always_ok always_ok)
     (sample_request [[ascii ''email'' \<mapsto> ascii ''a@y'']]) []
   = ((JDict [(ascii ''success'', JBool True),
              (ascii ''message'', JStr (ascii ''Test email sent successfully to a@y''))], 200),
      [PathExists TEMPLATE_PATH True, PathExists TEMPLATE_PATH True,
       ReadText TEMPLATE_PATH (Inr (ascii ''Hello'')),
       SmtpConnect SMTP_SERVER SMTP_PORT None, SmtpEhlo None, SmtpStarttls None,
       SmtpLogin (ascii ''me@x.org'') (ascii ''pw'') None,
       SmtpSendmail (ascii ''me@x.org'') [ascii ''a@y'']
         (envelope (ascii ''me@x.org'') (ascii ''a@y'') (ascii ''Hi'')
            [html_part [72, 101, 108, 108, 111], data_part [65, 66, 67] (ascii ''CV.pdf'')]) None,
       SmtpExit None]) \<and>
   test_email ((sample_world always_ok always_ok)\<lparr>str_format := two_fields_only\<rparr>)
     (sample_request [[ascii ''email'' \<mapsto> ascii ''a@y'']]) []
   = test_email (sample_world always_ok always_ok)
       (sample_request [[ascii ''email'' \<mapsto> ascii ''a@y'']]) []"
proof -
  let ?W = "sample_world always_ok always_ok"
  let ?d = "sample_request [[ascii ''email'' \<mapsto> ascii ''a@y'']]"
  let ?t = "[PathExists TEMPLATE_PATH True, PathExists TEMPLATE_PATH True,
       ReadText TEMPLATE_PATH (Inr (ascii ''Hello'')),
       SmtpConnect SMTP_SERVER SMTP_PORT None, SmtpEhlo None, SmtpStarttls None,
       SmtpLogin (ascii ''me@x.org'') (ascii ''pw'') None,
       SmtpSendmail (ascii ''me@x.org'') [ascii ''a@y'']
         (envelope (ascii ''me@x.org'') (ascii ''a@y'') (ascii ''Hi'')
            [html_part [72, 101, 108, 108, 111], data_part [65, 66, 67] (ascii ''CV.pdf'')]) None,
       SmtpExit None]"
  have run: "test_email ?W ?d []
     = ((JDict [(ascii ''success'', JBool True),
              (ascii ''message'', JStr (ascii ''Test email sent successfully to a@y''))], 200), ?t)"
    by (simp add: sample_test_run)
  have agree: "\<forall>template greeting job_title.
       two_fields_only template [(ascii ''greeting'', greeting), (ascii ''job_title'', job_title)]
       = str_format ?W template
           [(ascii ''greeting'', greeting), (ascii ''job_title'', job_title)]"
    by (simp add: two_fields_only_def sample_world_def)
  show ?thesis
    using test_email_response [of ?W ?d "[]" _ 200 ?t two_fields_only] run agree
    by simp
qed

text \<open>
  C8 as stated fails on the failure paths: a request without address, and a relay that
  refuses the credentials, are answered with \<open>{error: ...}\<close>, which holds neither a
  success flag nor a message.
\<close>

theorem test_email_failure_counterexample:
  "fst (test_email (sample_world always_ok always_ok) (sample_request []) [])
     = (JDict [(ascii ''error'', JStr (ascii ''Email address is required''))], 400) \<and>
   json_get (fst (fst (test_email (sample_world always_ok always_ok) (sample_request []) [])))
     (ascii ''success'') = None \<and>
   json_get (fst (fst (test_email (sample_world always_ok always_ok) (sample_request []) [])))
     (ascii ''message'') = None \<and>
   fst (test_email (sample_world login_refused always_ok)
          (sample_request [[ascii ''email'' \<mapsto> ascii ''a@y'']]) [])
     = (JDict [(ascii ''error'', JStr (ascii ''Failed to send email: 535''))], 500)"
  by (simp add: sample_test_run error_body_def)

end
